theory Spec2Isabelle
  imports Main
begin

section \<open>Data model of the playback controller\<close>

text \<open>
  The development embeds \<^verbatim>\<open>src/background/object/controller.ts\<close>. JavaScript
  numbers that count seconds are integers here; a thrown exception is the left summand
  of \<open>error + 'a\<close>. Listener calls and calls to the collaborators are appended to an
  event log kept in the controller state, in the order the code performs them.
\<close>

text \<open>
  A field of a snapshot or of a song may be absent (\<^verbatim>\<open>undefined\<close>), \<^verbatim>\<open>null\<close> or a
  value. The three are kept apart, so that equality of \<open>'a js\<close> is the strict equality
  \<^verbatim>\<open>===\<close> of the code on strings, numbers, \<^verbatim>\<open>null\<close> and \<^verbatim>\<open>undefined\<close>.
\<close>

datatype 'a js = JsUndefined | JsNull | JsVal 'a

text \<open>A target handed to a timer: \<^verbatim>\<open>null\<close> and \<^verbatim>\<open>undefined\<close> both mean no target.\<close>

fun toOption :: "'a js \<Rightarrow> 'a option" where
  "toOption (JsVal x) = Some x"
| "toOption JsNull = None"
| "toOption JsUndefined = None"

datatype ControllerMode =
  Disabled | Base | Loading | Playing | Scrobbled | Ignored | Skipped | Unknown | Err

text \<open>The connector state (\<^verbatim>\<open>ConnectorState\<close>, \<^verbatim>\<open>ParsedSongInfo\<close>): one snapshot.\<close>

record ConnectorState =
  artist :: "string js"
  track :: "string js"
  album :: "string js"
  uniqueID :: "string js"
  currentTime :: "int js"
  duration :: "int js"
  isPlaying :: bool
  isPodcast :: bool
  trackArt :: "string js"

text \<open>
  Modelled from the spec: the classes \<^verbatim>\<open>Song\<close> and \<^verbatim>\<open>SongImpl\<close> are imported by the
  controller and are not among the sources. The record follows the attributes the
  specification lists for a playback session (identity fields, mutable timing, the four
  flags, validity); the methods below are the ones the controller calls.
\<close>

record Song =
  s_artist :: "string js"
  s_track :: "string js"
  s_album :: "string js"
  s_uniqueID :: "string js"
  s_currentTime :: "int js"
  s_duration :: "int js"
  s_isPlaying :: bool
  s_trackArt :: "string js"
  isSkipped :: bool
  isScrobbled :: bool
  isMarkedAsPlaying :: bool
  isReplaying :: bool
  s_valid :: bool

datatype Flag = FlagIsSkipped | FlagIsScrobbled | FlagIsMarkedAsPlaying | FlagIsReplaying

fun getFlag :: "Flag \<Rightarrow> Song \<Rightarrow> bool" where
  "getFlag FlagIsSkipped s = isSkipped s"
| "getFlag FlagIsScrobbled s = isScrobbled s"
| "getFlag FlagIsMarkedAsPlaying s = isMarkedAsPlaying s"
| "getFlag FlagIsReplaying s = isReplaying s"

fun setFlag :: "Flag \<Rightarrow> bool \<Rightarrow> Song \<Rightarrow> Song" where
  "setFlag FlagIsSkipped v s = s\<lparr>isSkipped := v\<rparr>"
| "setFlag FlagIsScrobbled v s = s\<lparr>isScrobbled := v\<rparr>"
| "setFlag FlagIsMarkedAsPlaying v s = s\<lparr>isMarkedAsPlaying := v\<rparr>"
| "setFlag FlagIsReplaying v s = s\<lparr>isReplaying := v\<rparr>"

definition isValid :: "Song \<Rightarrow> bool" where
  "isValid s = s_valid s"

definition songIsPlaying :: "Song \<Rightarrow> bool" where
  "songIsPlaying s = s_isPlaying s"

definition getDuration :: "Song \<Rightarrow> int js" where
  "getDuration s = s_duration s"

definition setDuration :: "int js \<Rightarrow> Song \<Rightarrow> Song" where
  "setDuration d s = s\<lparr>s_duration := d\<rparr>"

definition setCurrentTime :: "int js \<Rightarrow> Song \<Rightarrow> Song" where
  "setCurrentTime t s = s\<lparr>s_currentTime := t\<rparr>"

definition setTrackArt :: "string js \<Rightarrow> Song \<Rightarrow> Song" where
  "setTrackArt a s = s\<lparr>s_trackArt := a\<rparr>"

definition setPlaying :: "bool \<Rightarrow> Song \<Rightarrow> Song" where
  "setPlaying b s = s\<lparr>s_isPlaying := b\<rparr>"

text \<open>
  Modelled from the spec: the constructor \<^verbatim>\<open>new SongImpl(newState)\<close> makes a fresh
  session from a snapshot, with no flag set and not yet valid.
\<close>

definition SongImpl :: "ConnectorState \<Rightarrow> Song" where
  "SongImpl st =
     \<lparr> s_artist = artist st, s_track = track st, s_album = album st,
       s_uniqueID = uniqueID st, s_currentTime = currentTime st,
       s_duration = duration st, s_isPlaying = isPlaying st,
       s_trackArt = trackArt st, isSkipped = False, isScrobbled = False,
       isMarkedAsPlaying = False, isReplaying = False, s_valid = False \<rparr>"

subsection \<open>The interval timer\<close>

text \<open>
  Modelled from the spec: the class \<^verbatim>\<open>Timer\<close> is imported by the controller and is
  not among the sources. The specification gives it the states idle, running, paused
  and expired, an accumulated elapsed time, an optional target and a callback that
  \<open>reset\<close> clears. The callback itself is not stored: the controller arms the
  playback timer with \<^verbatim>\<open>scrobbleSong\<close> and the replay timer with the assignment
  \<^verbatim>\<open>isReplayingSong = true\<close>, and the functions that may fire return a flag that
  tells the controller to run it.
\<close>

datatype TimerState = Idle | Running | Paused | Expired

record Timer =
  tstate :: TimerState
  elapsed :: int
  target :: "int option"
  armed :: bool

definition newTimer :: Timer where
  "newTimer = \<lparr> tstate = Idle, elapsed = 0, target = None, armed = False \<rparr>"

definition timer_reset :: "Timer \<Rightarrow> Timer" where
  "timer_reset t = newTimer"

definition timer_start :: "Timer \<Rightarrow> Timer" where
  "timer_start t = \<lparr> tstate = Running, elapsed = 0, target = None, armed = True \<rparr>"

definition timer_pause :: "Timer \<Rightarrow> Timer" where
  "timer_pause t = (if tstate t = Running then t\<lparr>tstate := Paused\<rparr> else t)"

definition timer_resume :: "Timer \<Rightarrow> Timer" where
  "timer_resume t = (if tstate t = Paused then t\<lparr>tstate := Running\<rparr> else t)"

definition getElapsed :: "Timer \<Rightarrow> int" where
  "getElapsed t = elapsed t"

definition isExpired :: "Timer \<Rightarrow> bool" where
  "isExpired t = (tstate t = Expired)"

text \<open>
  Modelled from the spec: \<open>update\<close> sets the target without touching the elapsed time; an armed timer whose
  elapsed time has already reached the new target expires and fires at once. A
  \<^verbatim>\<open>null\<close> target never fires, and neither does a timer that is idle or has fired.
\<close>

definition timer_update :: "int option \<Rightarrow> Timer \<Rightarrow> Timer \<times> bool" where
  "timer_update tgt t =
     (case tgt of
        None \<Rightarrow> (t\<lparr>target := None\<rparr>, False)
      | Some x \<Rightarrow>
          if armed t \<and> (tstate t = Running \<or> tstate t = Paused) \<and> x \<le> elapsed t
          then (t\<lparr>target := Some x, tstate := Expired\<rparr>, True)
          else (t\<lparr>target := Some x\<rparr>, False))"

text \<open>
  Modelled from the spec: wall-clock time passing. Only a running timer accumulates; reaching the target
  makes it expire and fire, once.
\<close>

definition timer_advance :: "int \<Rightarrow> Timer \<Rightarrow> Timer \<times> bool" where
  "timer_advance dt t =
     (if tstate t = Running then
        (let t' = t\<lparr>elapsed := elapsed t + dt\<rparr> in
         case target t' of
           None \<Rightarrow> (t', False)
         | Some x \<Rightarrow>
             if armed t' \<and> x \<le> elapsed t' then (t'\<lparr>tstate := Expired\<rparr>, True)
             else (t', False))
      else (t, False))"

subsection \<open>Collaborators\<close>

text \<open>
  Modelled from the spec: \<^verbatim>\<open>ApiCallResult\<close> is not among the sources. A result is
  tagged with one of Ok, Ignore or an error kind, and carries the identifier of the
  service it comes from; \<^verbatim>\<open>result.is(t)\<close> compares the tag.
\<close>

datatype ResultType = RESULT_OK | RESULT_IGNORE | ERROR_AUTH | ERROR_OTHER

record ApiCallResult =
  resultType :: ResultType
  scrobblerId :: string

definition is_result :: "ApiCallResult \<Rightarrow> ResultType \<Rightarrow> bool" where
  "is_result r t = (resultType r = t)"

definition getScrobblerId :: "ApiCallResult \<Rightarrow> string" where
  "getScrobblerId r = scrobblerId r"

text \<open>
  Modelled from the spec: the helpers \<^verbatim>\<open>isAnyResult\<close> and \<^verbatim>\<open>areAllResults\<close> of
  \<^verbatim>\<open>util\<close> are not among the sources; the specification reads them as "at least one
  service returned" and "all services returned" the given outcome.
\<close>

definition isAnyResult :: "ApiCallResult list \<Rightarrow> ResultType \<Rightarrow> bool" where
  "isAnyResult results t = list_ex (\<lambda>r. is_result r t) results"

definition areAllResults :: "ApiCallResult list \<Rightarrow> ResultType \<Rightarrow> bool" where
  "areAllResults results t = list_all (\<lambda>r. is_result r t) results"

text \<open>
  Modelled from the spec: \<^verbatim>\<open>EditedSongInfo\<close> is not among the sources; it holds the
  identity fields a user may edit. The controller does not read it.
\<close>

record EditedSongInfo =
  edited_artist :: "string js"
  edited_track :: "string js"
  edited_album :: "string js"

text \<open>
  What the controller reads from outside itself and never writes: the option
  \<^verbatim>\<open>SCROBBLE_PERCENT\<close> and the two helpers of \<^verbatim>\<open>util\<close> whose code is not among the
  sources. They are parameters of the embedding, so every theorem stated for an
  arbitrary \<open>env\<close> holds whatever these helpers compute.
\<close>

record Env =
  scrobblePercent :: int
  util_getSecondsToScrobble :: "int js \<Rightarrow> int \<Rightarrow> int"
  util_isStateEmpty :: "ConnectorState \<Rightarrow> bool"

datatype error = Error string | TypeError

text \<open>
  The scrobbler manager is the list of its scrobblers, each stood for by the identifier
  its \<^verbatim>\<open>getId()\<close> returns. The event log has an entry for every call the controller
  makes on a listener, on the pipeline, on the manager and on a scrobbler. It has none
  for the storage of unsent songs, \<^verbatim>\<open>ScrobbleStorage\<close>: no code of the controller calls
  it.
\<close>

datatype Event =
    OnModeChanged ControllerMode
  | OnSongUpdated
  | OnNowPlaying
  | OnReset
  | PipelineProcess "Song option"
  | SendNowPlayingRequest Song
  | SendScrobbleRequest "Song option"
  | ScrobblerGetId string

record Controller =
  mode :: ControllerMode
  isEnabled :: bool
  currentSong :: "Song option"
  playbackTimer :: Timer
  replayDetectionTimer :: Timer
  isReplayingSong :: bool
  shouldScrobblePodcasts :: bool
  previousState :: "ConnectorState option"
  scrobblerManager :: "string list"
  events :: "Event list"

definition emit :: "Event \<Rightarrow> Controller \<Rightarrow> Controller" where
  "emit e c = c\<lparr>events := events c @ [e]\<rparr>"

text \<open>The constructor: no song, no previous state, fresh timers.\<close>

definition newController :: "bool \<Rightarrow> bool \<Rightarrow> string list \<Rightarrow> Controller" where
  "newController enabled podcasts ids =
     \<lparr> mode = (if enabled then Base else Disabled), isEnabled = enabled,
       currentSong = None, playbackTimer = newTimer, replayDetectionTimer = newTimer,
       isReplayingSong = False, shouldScrobblePodcasts = podcasts,
       previousState = None, scrobblerManager = ids, events = [] \<rparr>"

section \<open>Detecting a changed song\<close>

datatype SongField = FieldArtist | FieldTrack | FieldAlbum | FieldUniqueID

definition fieldsToCheckSongChange :: "SongField list" where
  "fieldsToCheckSongChange = [FieldArtist, FieldTrack, FieldAlbum, FieldUniqueID]"

fun getField :: "SongField \<Rightarrow> ConnectorState \<Rightarrow> string js" where
  "getField FieldArtist st = artist st"
| "getField FieldTrack st = track st"
| "getField FieldAlbum st = album st"
| "getField FieldUniqueID st = uniqueID st"

text \<open>
  The loop of \<^verbatim>\<open>isSongChanged\<close>: the first field for which \<^verbatim>\<open>!==\<close> holds returns
  true.
\<close>

fun anyFieldDiffers :: "SongField list \<Rightarrow> ConnectorState \<Rightarrow> ConnectorState \<Rightarrow> bool" where
  "anyFieldDiffers [] newState prev = False"
| "anyFieldDiffers (f # fs) newState prev =
     (if getField f newState \<noteq> getField f prev then True
      else anyFieldDiffers fs newState prev)"

definition isSongChanged :: "ConnectorState \<Rightarrow> Controller \<Rightarrow> bool" where
  "isSongChanged newState c =
     (case previousState c of
        None \<Rightarrow> True
      | Some prev \<Rightarrow> anyFieldDiffers fieldsToCheckSongChange newState prev)"

section \<open>Operations of the controller\<close>

definition setMode :: "ControllerMode \<Rightarrow> Controller \<Rightarrow> Controller" where
  "setMode m c = emit (OnModeChanged m) (c\<lparr>mode := m\<rparr>)"

definition assertSongIsPlaying :: "Controller \<Rightarrow> error + Song" where
  "assertSongIsPlaying c =
     (case currentSong c of
        None \<Rightarrow> Inl (Error ''No song is now playing'')
      | Some s \<Rightarrow> Inr s)"

definition getSecondsToScrobble :: "Env \<Rightarrow> int js \<Rightarrow> int" where
  "getSecondsToScrobble env d = util_getSecondsToScrobble env d (scrobblePercent env)"

text \<open>
  \<^verbatim>\<open>scrobbleSong\<close> is asynchronous. Up to its \<^verbatim>\<open>await\<close> it hands the current song
  to \<^verbatim>\<open>sendScrobbleRequest\<close>; the rest runs when the results arrive, on the state the
  controller has by then (see \<open>scrobbleSong_resume\<close>).
\<close>

definition scrobbleSong_request :: "Controller \<Rightarrow> Controller" where
  "scrobbleSong_request c = emit (SendScrobbleRequest (currentSong c)) c"

text \<open>The two timers with the callbacks \<^verbatim>\<open>processNewState\<close> arms them with.\<close>

definition updatePlaybackTimer :: "int option \<Rightarrow> Controller \<Rightarrow> Controller" where
  "updatePlaybackTimer tgt c =
     (case timer_update tgt (playbackTimer c) of
        (t, fired) \<Rightarrow>
          (let c' = c\<lparr>playbackTimer := t\<rparr>
           in if fired then scrobbleSong_request c' else c'))"

definition updateReplayDetectionTimer :: "int option \<Rightarrow> Controller \<Rightarrow> Controller" where
  "updateReplayDetectionTimer tgt c =
     (case timer_update tgt (replayDetectionTimer c) of
        (t, fired) \<Rightarrow>
          (let c' = c\<lparr>replayDetectionTimer := t\<rparr>
           in if fired then c'\<lparr>isReplayingSong := True\<rparr> else c'))"

text \<open>Time passing for both timers of a controller, the playback timer first.\<close>

definition advance :: "int \<Rightarrow> Controller \<Rightarrow> Controller" where
  "advance dt c =
     (case timer_advance dt (playbackTimer c) of
        (pt, pfired) \<Rightarrow>
          (let c1 = c\<lparr>playbackTimer := pt\<rparr>;
               c2 = (if pfired then scrobbleSong_request c1 else c1)
           in case timer_advance dt (replayDetectionTimer c2) of
                (rt, rfired) \<Rightarrow>
                  (let c3 = c2\<lparr>replayDetectionTimer := rt\<rparr>
                   in if rfired then c3\<lparr>isReplayingSong := True\<rparr> else c3)))"

definition resetState :: "Controller \<Rightarrow> Controller" where
  "resetState c =
     (emit OnReset c)
       \<lparr> playbackTimer := timer_reset (playbackTimer c),
         replayDetectionTimer := timer_reset (replayDetectionTimer c),
         currentSong := None \<rparr>"

definition reset :: "Controller \<Rightarrow> Controller" where
  "reset c = setMode Base (resetState c)"

definition setEnabled :: "bool \<Rightarrow> Controller \<Rightarrow> Controller" where
  "setEnabled flag c =
     (let c1 = c\<lparr>isEnabled := flag\<rparr>
      in if flag then setMode Base c1 else setMode Disabled (resetState c1))"

definition unprocessSong :: "Controller \<Rightarrow> Controller" where
  "unprocessSong c =
     updateReplayDetectionTimer None
       (updatePlaybackTimer None (c\<lparr>currentSong := None\<rparr>))"

definition resetSongData :: "Controller \<Rightarrow> error + Controller" where
  "resetSongData c =
     (case assertSongIsPlaying c of
        Inl e \<Rightarrow> Inl e
      | Inr s \<Rightarrow> Inr (unprocessSong c))"

definition setUserSongData :: "EditedSongInfo \<Rightarrow> Controller \<Rightarrow> error + Controller" where
  "setUserSongData data c =
     (case assertSongIsPlaying c of
        Inl e \<Rightarrow> Inl e
      | Inr s \<Rightarrow>
          if getFlag FlagIsScrobbled s
          then Inl (Error ''Unable to set user data for scrobbled song'')
          else Inr (unprocessSong c))"

definition skipCurrentSong :: "Controller \<Rightarrow> error + Controller" where
  "skipCurrentSong c =
     (case assertSongIsPlaying c of
        Inl e \<Rightarrow> Inl e
      | Inr s \<Rightarrow>
          (let c1 = setMode Skipped c;
               c2 = c1\<lparr>currentSong := Some (setFlag FlagIsSkipped True s)\<rparr>;
               c3 = c2\<lparr>playbackTimer := timer_reset (playbackTimer c2),
                       replayDetectionTimer := timer_reset (replayDetectionTimer c2)\<rparr>
           in Inr (emit OnSongUpdated c3)))"

text \<open>
  \<^verbatim>\<open>addSongToScrobbleStorage\<close> binds the identifiers it was given or, without an
  argument, asks every scrobbler of the manager for its identifier. Nothing else
  happens: the call of \<^verbatim>\<open>ScrobbleStorage.addSong\<close> that would take the song and the
  bound identifiers is commented out in the source, so the bound list is dropped and
  the controller is returned as it is after the \<^verbatim>\<open>getId()\<close> calls.
\<close>

definition addSongToScrobbleStorage :: "string list option \<Rightarrow> Controller \<Rightarrow> Controller" where
  "addSongToScrobbleStorage scrobblerIds c =
     (case (case scrobblerIds of
              None \<Rightarrow>
                (scrobblerManager c,
                 c\<lparr>events := events c @ map ScrobblerGetId (scrobblerManager c)\<rparr>)
            | Some ids \<Rightarrow> (ids, c)) of
        (boundScrobblerIds, c') \<Rightarrow> c')"

definition isNeedToAddSongToScrobbleStorage :: "Env \<Rightarrow> Controller \<Rightarrow> bool" where
  "isNeedToAddSongToScrobbleStorage env c =
     (case currentSong c of
        None \<Rightarrow> False
      | Some s \<Rightarrow>
          if \<not> isValid s then
            (let secondsToScrobble = getSecondsToScrobble env (getDuration s)
             in if secondsToScrobble \<noteq> - 1
                then secondsToScrobble \<le> getElapsed (playbackTimer c)
                else False)
          else False)"

definition updateTimers :: "Env \<Rightarrow> int js \<Rightarrow> Controller \<Rightarrow> Controller" where
  "updateTimers env d c =
     (if isExpired (playbackTimer c) then c
      else
        (let secondsToScrobble = getSecondsToScrobble env d
         in if secondsToScrobble \<noteq> - 1
            then updateReplayDetectionTimer (toOption d)
                   (updatePlaybackTimer (Some secondsToScrobble) c)
            else c))"

text \<open>
  \<^verbatim>\<open>setSongNowPlaying\<close> is asynchronous as well: it flags the song and sends the
  request; the mode is set when the results arrive. Its callers do not await it, so a
  failure inside it does not reach them (\<open>detached\<close>).
\<close>

definition setSongNowPlaying_request :: "Controller \<Rightarrow> error + Controller" where
  "setSongNowPlaying_request c =
     (case currentSong c of
        None \<Rightarrow> Inl TypeError
      | Some s \<Rightarrow>
          (let s' = setFlag FlagIsMarkedAsPlaying True s
           in Inr (emit (SendNowPlayingRequest s') (c\<lparr>currentSong := Some s'\<rparr>))))"

definition setSongNowPlaying_resume :: "ApiCallResult list \<Rightarrow> Controller \<Rightarrow> Controller" where
  "setSongNowPlaying_resume results c =
     emit OnNowPlaying
       (if isAnyResult results RESULT_OK then setMode Playing c else setMode Err c)"

definition detached :: "(Controller \<Rightarrow> error + Controller) \<Rightarrow> Controller \<Rightarrow> Controller" where
  "detached f c = (case f c of Inl e \<Rightarrow> c | Inr c' \<Rightarrow> c')"

definition setSongNotRecognized :: "Controller \<Rightarrow> Controller" where
  "setSongNotRecognized c = emit OnNowPlaying (setMode Unknown c)"

definition updateSongDuration :: "Env \<Rightarrow> int js \<Rightarrow> Controller \<Rightarrow> error + Controller" where
  "updateSongDuration env d c =
     (case currentSong c of
        None \<Rightarrow> Inl TypeError
      | Some s \<Rightarrow>
          (let s' = setDuration d s; c1 = c\<lparr>currentSong := Some s'\<rparr>
           in if isValid s' then Inr (updateTimers env d c1) else Inr c1))"

definition isNeedToUpdateDuration :: "ConnectorState \<Rightarrow> Song \<Rightarrow> bool" where
  "isNeedToUpdateDuration newState s =
     (case duration newState of
        JsVal d \<Rightarrow> d \<noteq> 0 \<and> getDuration s \<noteq> JsVal d
      | JsNull \<Rightarrow> False
      | JsUndefined \<Rightarrow> False)"

definition onPlayingStateChanged :: "bool \<Rightarrow> Controller \<Rightarrow> error + Controller" where
  "onPlayingStateChanged v c =
     (if v then
        (let c1 = c\<lparr>playbackTimer := timer_resume (playbackTimer c),
                     replayDetectionTimer := timer_resume (replayDetectionTimer c)\<rparr>
         in case currentSong c1 of
              None \<Rightarrow> Inl TypeError
            | Some s \<Rightarrow>
                if \<not> getFlag FlagIsMarkedAsPlaying s \<and> isValid s
                then Inr (detached setSongNowPlaying_request c1)
                else Inr (setMode (mode c1) c1))
      else
        Inr (c\<lparr>playbackTimer := timer_pause (playbackTimer c),
               replayDetectionTimer := timer_pause (replayDetectionTimer c)\<rparr>))"

definition processCurrentState :: "Env \<Rightarrow> ConnectorState \<Rightarrow> Controller \<Rightarrow> error + Controller" where
  "processCurrentState env newState c =
     (case currentSong c of
        None \<Rightarrow> Inl TypeError
      | Some s \<Rightarrow>
          if getFlag FlagIsSkipped s then Inr c
          else
            (let isPlayingStateChanged = (songIsPlaying s \<noteq> isPlaying newState);
                 s' = setPlaying (isPlaying newState)
                        (setTrackArt (trackArt newState)
                          (setCurrentTime (currentTime newState) s));
                 c1 = c\<lparr>currentSong := Some s'\<rparr>
             in case (if isNeedToUpdateDuration newState s'
                      then updateSongDuration env (duration newState) c1
                      else Inr c1) of
                  Inl e \<Rightarrow> Inl e
                | Inr c2 \<Rightarrow>
                    if isPlayingStateChanged
                    then onPlayingStateChanged (isPlaying newState) c2
                    else Inr c2))"

definition processNewState :: "ConnectorState \<Rightarrow> Controller \<Rightarrow> error + Controller" where
  "processNewState newState c =
     (let c1 = resetState c;
          c2 = c1\<lparr>currentSong :=
                    Some (setFlag FlagIsReplaying (isReplayingSong c1) (SongImpl newState))\<rparr>
      in if \<not> shouldScrobblePodcasts c2 \<and> isPodcast newState then skipCurrentSong c2
         else
           (let c3 = c2\<lparr>playbackTimer := timer_start (playbackTimer c2),
                        replayDetectionTimer := timer_start (replayDetectionTimer c2)\<rparr>;
                c4 = (if \<not> isPlaying newState
                      then c3\<lparr>playbackTimer := timer_pause (playbackTimer c3),
                              replayDetectionTimer := timer_pause (replayDetectionTimer c3)\<rparr>
                      else c3)
            in Inr (c4\<lparr>isReplayingSong := False\<rparr>)))"

text \<open>
  \<^verbatim>\<open>processSong\<close> up to its \<^verbatim>\<open>await\<close>: the mode is Loading and the current song is
  handed to the pipeline. The pipeline works on the song object in place and may take
  any time; snapshots keep arriving meanwhile.
\<close>

definition processSong_begin :: "Controller \<Rightarrow> Controller" where
  "processSong_begin c = emit (PipelineProcess (currentSong c)) (setMode Loading c)"

text \<open>
  \<^verbatim>\<open>processSong\<close> after the \<^verbatim>\<open>await\<close>: every \<^verbatim>\<open>this.currentSong\<close> is read from the
  controller as it is when the pipeline has resolved.
\<close>

definition processSong_resume :: "Env \<Rightarrow> Controller \<Rightarrow> error + Controller" where
  "processSong_resume env c =
     (case currentSong c of
        None \<Rightarrow> Inl TypeError
      | Some s \<Rightarrow>
          (let c3 =
                 (if isValid s then
                    (let s' = setFlag FlagIsMarkedAsPlaying False s;
                         c1 = c\<lparr>currentSong := Some s'\<rparr>;
                         c2 = updateTimers env (getDuration s') c1
                     in if songIsPlaying s' then
                          (if \<not> isExpired (playbackTimer c2)
                           then detached setSongNowPlaying_request c2
                           else emit OnNowPlaying c2)
                        else setMode Base c2)
                  else setSongNotRecognized c)
           in Inr (emit OnSongUpdated c3)))"

text \<open>\<^verbatim>\<open>scrobbleSong\<close> after the \<^verbatim>\<open>await\<close>, with the results of the services.\<close>

definition scrobbleSong_resume :: "ApiCallResult list \<Rightarrow> Controller \<Rightarrow> error + Controller" where
  "scrobbleSong_resume results c =
     (let failedScrobblerIds =
            map getScrobblerId (filter (\<lambda>result. \<not> is_result result RESULT_OK) results);
          isAnyOkResult = (length failedScrobblerIds < length results)
      in case (if isAnyOkResult then
                 (case currentSong c of
                    None \<Rightarrow> Inl TypeError
                  | Some s \<Rightarrow>
                      Inr (emit OnSongUpdated
                             (setMode Scrobbled
                                (c\<lparr>currentSong := Some (setFlag FlagIsScrobbled True s)\<rparr>))))
               else if areAllResults results RESULT_IGNORE then Inr (setMode Ignored c)
               else Inr (setMode Err c)) of
           Inl e \<Rightarrow> Inl e
         | Inr c1 \<Rightarrow>
             if 0 < length failedScrobblerIds
             then Inr (addSongToScrobbleStorage (Some failedScrobblerIds) c1)
             else Inr c1)"

definition processEmptyState :: "Env \<Rightarrow> ConnectorState \<Rightarrow> Controller \<Rightarrow> Controller" where
  "processEmptyState env st c =
     (case currentSong c of
        None \<Rightarrow> c
      | Some s \<Rightarrow>
          reset (if isNeedToAddSongToScrobbleStorage env c
                 then addSongToScrobbleStorage None c else c))"

text \<open>
  \<^verbatim>\<open>onStateChanged\<close> up to the point where \<^verbatim>\<open>processSong\<close> waits for the pipeline.
\<close>

definition onStateChanged :: "Env \<Rightarrow> ConnectorState \<Rightarrow> Controller \<Rightarrow> error + Controller" where
  "onStateChanged env newState c =
     (if \<not> isEnabled c then Inr c
      else if util_isStateEmpty env newState then Inr (processEmptyState env newState c)
      else
        (let changed = isSongChanged newState c;
             c1 = c\<lparr>previousState := Some newState\<rparr>
         in if changed \<or> isReplayingSong c1 then
              (if isPlaying newState then
                 (let c2 = (if isNeedToAddSongToScrobbleStorage env c1
                            then addSongToScrobbleStorage None c1 else c1)
                  in case processNewState newState c2 of
                       Inl e \<Rightarrow> Inl e
                     | Inr c3 \<Rightarrow> Inr (processSong_begin c3))
               else Inr (reset c1))
            else processCurrentState env newState c1))"

section \<open>Observations and worked inputs\<close>

text \<open>The identifiers of the services whose result is not Ok, in the order of the results.\<close>

definition notOkIds :: "ApiCallResult list \<Rightarrow> string list" where
  "notOkIds results = map scrobblerId (filter (\<lambda>r. resultType r \<noteq> RESULT_OK) results)"

text \<open>Two snapshots that agree on the four identity fields.\<close>

definition sameItem :: "ConnectorState \<Rightarrow> ConnectorState \<Rightarrow> bool" where
  "sameItem a b =
     (artist a = artist b \<and> track a = track b \<and> album a = album b \<and>
      uniqueID a = uniqueID b)"

text \<open>
  What reaches a controller from outside: a snapshot of the connector, time passing,
  the completion of a call the controller is waiting for (the pipeline has resolved,
  the results of a scrobble request or of a now-playing request have arrived), and a
  call of \<^verbatim>\<open>skipCurrentSong\<close>. No completion carries the session it was started for, as none does in the
  code. What the pipeline writes into the song is not the controller's code and is not
  part of a run. A run stops at the first exception.
\<close>

datatype Input =
    Snapshot ConnectorState
  | Tick int
  | PipelineDone
  | ScrobbleDone "ApiCallResult list"
  | NowPlayingDone "ApiCallResult list"
  | Skip

fun step :: "Env \<Rightarrow> Input \<Rightarrow> Controller \<Rightarrow> error + Controller" where
  "step env (Snapshot st) c = onStateChanged env st c"
| "step env (Tick dt) c = Inr (advance dt c)"
| "step env PipelineDone c = processSong_resume env c"
| "step env (ScrobbleDone results) c = scrobbleSong_resume results c"
| "step env (NowPlayingDone results) c = Inr (setSongNowPlaying_resume results c)"
| "step env Skip c = skipCurrentSong c"

fun run :: "Env \<Rightarrow> Input list \<Rightarrow> Controller \<Rightarrow> error + Controller" where
  "run env [] c = Inr c"
| "run env (i # rest) c =
     (case step env i c of Inl e \<Rightarrow> Inl e | Inr c' \<Rightarrow> run env rest c')"

text \<open>
  The inputs that do not end a session after a snapshot \<open>p\<close>: a snapshot that is not
  empty and agrees with \<open>p\<close> on the identity fields, time passing, a completion, and
  a repeated skip.
\<close>

fun afterSkipInput :: "Env \<Rightarrow> ConnectorState \<Rightarrow> Input \<Rightarrow> bool" where
  "afterSkipInput env p (Snapshot st) = (sameItem p st \<and> \<not> util_isStateEmpty env st)"
| "afterSkipInput env p i = True"

text \<open>The now-playing requests found in an event log, oldest first.\<close>

fun nowPlayingRequests :: "Event list \<Rightarrow> Song list" where
  "nowPlayingRequests [] = []"
| "nowPlayingRequests (SendNowPlayingRequest s # es) = s # nowPlayingRequests es"
| "nowPlayingRequests (e # es) = nowPlayingRequests es"

text \<open>The scrobble requests found in an event log, oldest first.\<close>

fun scrobbleRequests :: "Event list \<Rightarrow> Song option list" where
  "scrobbleRequests [] = []"
| "scrobbleRequests (SendScrobbleRequest s # es) = s # scrobbleRequests es"
| "scrobbleRequests (e # es) = scrobbleRequests es"

text \<open>The timing fields of a song, the ones a same-item snapshot may write.\<close>

definition timingFields :: "Song \<Rightarrow> int js \<times> int js \<times> bool \<times> string js" where
  "timingFields s = (s_currentTime s, s_duration s, s_isPlaying s, s_trackArt s)"

text \<open>Whether retargeting a timer to \<open>x\<close> makes it fire at once.\<close>

definition updateFires :: "int \<Rightarrow> Timer \<Rightarrow> bool" where
  "updateFires x t = snd (timer_update (Some x) t)"

text \<open>
  Modelled from the spec: \<^verbatim>\<open>getSecondsToScrobble\<close> of \<^verbatim>\<open>util\<close> is not among the
  sources. The threshold is the smaller of the given percentage of the duration and an
  absolute cap; an unknown or non-positive duration gives the sentinel \<open>-1\<close>. It
  is used for the worked inputs only.
\<close>

definition spec_getSecondsToScrobble :: "int \<Rightarrow> int js \<Rightarrow> int \<Rightarrow> int" where
  "spec_getSecondsToScrobble cap d p =
     (case d of
        JsVal x \<Rightarrow> if x \<le> 0 then - 1 else min (x * p div 100) cap
      | JsNull \<Rightarrow> - 1
      | JsUndefined \<Rightarrow> - 1)"

text \<open>
  Modelled from the spec: \<^verbatim>\<open>isStateEmpty\<close> of \<^verbatim>\<open>util\<close> is not among the sources. A
  snapshot whose artist or track is \<^verbatim>\<open>null\<close> or absent is taken as empty. It is used
  for the worked inputs only.
\<close>

definition spec_isStateEmpty :: "ConnectorState \<Rightarrow> bool" where
  "spec_isStateEmpty st = (toOption (artist st) = None \<or> toOption (track st) = None)"

definition sampleEnv :: Env where
  "sampleEnv =
     \<lparr> scrobblePercent = 50,
       util_getSecondsToScrobble = spec_getSecondsToScrobble 240,
       util_isStateEmpty = spec_isStateEmpty \<rparr>"

definition stateA :: ConnectorState where
  "stateA =
     \<lparr> artist = JsVal ''Artist A'', track = JsVal ''Track A'', album = JsNull,
       uniqueID = JsNull, currentTime = JsVal 0, duration = JsVal 200,
       isPlaying = True, isPodcast = False, trackArt = JsNull \<rparr>"

definition stateB :: ConnectorState where
  "stateB =
     \<lparr> artist = JsVal ''Artist B'', track = JsVal ''Track B'', album = JsNull,
       uniqueID = JsNull, currentTime = JsVal 0, duration = JsVal 180,
       isPlaying = True, isPodcast = False, trackArt = JsNull \<rparr>"

definition emptyState :: ConnectorState where
  "emptyState =
     \<lparr> artist = JsNull, track = JsNull, album = JsNull, uniqueID = JsNull,
       currentTime = JsNull, duration = JsNull, isPlaying = False, isPodcast = False,
       trackArt = JsNull \<rparr>"

definition ctl0 :: Controller where
  "ctl0 = newController True True [''lastfm'', ''librefm'']"

text \<open>
  A controller in the middle of song A: the pipeline has validated the song and the
  playback timer runs towards its target.
\<close>

definition songA :: Song where
  "songA = (SongImpl stateA)\<lparr>s_valid := True, isMarkedAsPlaying := True\<rparr>"

definition ctlA :: Controller where
  "ctlA =
     ctl0\<lparr> mode := Playing, currentSong := Some songA,
           playbackTimer :=
             \<lparr> tstate = Running, elapsed = 40, target = Some 100, armed = True \<rparr>,
           replayDetectionTimer :=
             \<lparr> tstate = Running, elapsed = 40, target = Some 200, armed = True \<rparr>,
           previousState := Some stateA \<rparr>"

definition okResult :: "string \<Rightarrow> ApiCallResult" where
  "okResult i = \<lparr> resultType = RESULT_OK, scrobblerId = i \<rparr>"

definition ignoreResult :: "string \<Rightarrow> ApiCallResult" where
  "ignoreResult i = \<lparr> resultType = RESULT_IGNORE, scrobblerId = i \<rparr>"

definition errorResult :: "string \<Rightarrow> ApiCallResult" where
  "errorResult i = \<lparr> resultType = ERROR_OTHER, scrobblerId = i \<rparr>"

definition ctlScrobbledA :: Controller where
  "ctlScrobbledA =
     ctlA\<lparr>mode := Scrobbled, currentSong := Some (songA\<lparr>isScrobbled := True\<rparr>)\<rparr>"

text \<open>Song A again, with a playback timer that has already fired.\<close>

definition ctlExpiredA :: Controller where
  "ctlExpiredA =
     ctlA\<lparr>playbackTimer :=
            \<lparr> tstate = Expired, elapsed = 100, target = Some 100, armed = True \<rparr>\<rparr>"

text \<open>
  Song A after 150 seconds of playback while the pipeline has not resolved: the song
  is not valid and its timers have no target yet.
\<close>

definition ctlLoadingA :: Controller where
  "ctlLoadingA =
     ctl0\<lparr> mode := Loading, currentSong := Some (SongImpl stateA),
           playbackTimer :=
             \<lparr> tstate = Running, elapsed = 150, target = None, armed = True \<rparr>,
           replayDetectionTimer :=
             \<lparr> tstate = Running, elapsed = 150, target = None, armed = True \<rparr>,
           previousState := Some stateA \<rparr>"

definition userEdit :: EditedSongInfo where
  "userEdit =
     \<lparr> edited_artist = JsVal ''Artist'', edited_track = JsVal ''Track'',
       edited_album = JsNull \<rparr>"

text \<open>
  Song A right after the pipeline has validated it, 40 seconds into playback: the
  timers run and have no target yet.
\<close>

definition ctlValidA :: Controller where
  "ctlValidA =
     ctl0\<lparr> mode := Loading, currentSong := Some ((SongImpl stateA)\<lparr>s_valid := True\<rparr>),
           playbackTimer :=
             \<lparr> tstate = Running, elapsed = 40, target = None, armed = True \<rparr>,
           replayDetectionTimer :=
             \<lparr> tstate = Running, elapsed = 40, target = None, armed = True \<rparr>,
           previousState := Some stateA \<rparr>"

text \<open>
  Song A validated by a slow pipeline, 150 seconds into playback: the timers run, have
  no target yet and have not fired.
\<close>

definition ctlLateA :: Controller where
  "ctlLateA =
     ctlLoadingA\<lparr>currentSong := Some ((SongImpl stateA)\<lparr>s_valid := True\<rparr>)\<rparr>"

text \<open>A timer that is idle, has no callback and has accumulated nothing.\<close>

definition idleTimer :: "Timer \<Rightarrow> bool" where
  "idleTimer t = (tstate t = Idle \<and> \<not> armed t \<and> elapsed t = 0)"

text \<open>
  A controller whose session is skipped, with the timing fields \<open>f\<close>, whose timers are
  idle and whose replay flag is not set, after a snapshot of the item \<open>p\<close>.
\<close>

definition skippedQuiet ::
  "ConnectorState \<Rightarrow> int js \<times> int js \<times> bool \<times> string js \<Rightarrow> Controller \<Rightarrow> bool" where
  "skippedQuiet p f c =
     ((case currentSong c of None \<Rightarrow> False | Some s \<Rightarrow> isSkipped s \<and> timingFields s = f) \<and>
      idleTimer (playbackTimer c) \<and> idleTimer (replayDetectionTimer c) \<and>
      \<not> isReplayingSong c \<and>
      (case previousState c of None \<Rightarrow> False | Some q \<Rightarrow> sameItem p q))"

section \<open>Auxiliary facts\<close>

text \<open>The definitions unfolded to evaluate a run on the worked inputs.\<close>

lemmas run_defs =
  onStateChanged_def processEmptyState_def processNewState_def processSong_begin_def
  processCurrentState_def processSong_resume_def scrobbleSong_resume_def
  setSongNotRecognized_def isSongChanged_def fieldsToCheckSongChange_def
  isNeedToAddSongToScrobbleStorage_def addSongToScrobbleStorage_def reset_def
  skipCurrentSong_def assertSongIsPlaying_def setMode_def emit_def
  resetState_def advance_def timer_advance_def timer_start_def timer_reset_def
  newTimer_def timer_pause_def scrobbleSong_request_def getSecondsToScrobble_def
  getElapsed_def getDuration_def isValid_def is_result_def areAllResults_def
  getScrobblerId_def SongImpl_def sampleEnv_def spec_getSecondsToScrobble_def
  spec_isStateEmpty_def stateA_def stateB_def emptyState_def ctl0_def
  newController_def Let_def

lemma emit_fields [simp]:
  "events (emit e c) = events c @ [e]"
  "mode (emit e c) = mode c"
  "isEnabled (emit e c) = isEnabled c"
  "currentSong (emit e c) = currentSong c"
  "playbackTimer (emit e c) = playbackTimer c"
  "replayDetectionTimer (emit e c) = replayDetectionTimer c"
  "isReplayingSong (emit e c) = isReplayingSong c"
  "shouldScrobblePodcasts (emit e c) = shouldScrobblePodcasts c"
  "previousState (emit e c) = previousState c"
  "scrobblerManager (emit e c) = scrobblerManager c"
  by (simp_all add: emit_def)

lemma setMode_fields [simp]:
  "events (setMode m c) = events c @ [OnModeChanged m]"
  "mode (setMode m c) = m"
  "isEnabled (setMode m c) = isEnabled c"
  "currentSong (setMode m c) = currentSong c"
  "playbackTimer (setMode m c) = playbackTimer c"
  "replayDetectionTimer (setMode m c) = replayDetectionTimer c"
  "isReplayingSong (setMode m c) = isReplayingSong c"
  "shouldScrobblePodcasts (setMode m c) = shouldScrobblePodcasts c"
  "previousState (setMode m c) = previousState c"
  "scrobblerManager (setMode m c) = scrobblerManager c"
  by (simp_all add: setMode_def)

lemma some_ok_iff_fewer_failed:
  "(length (filter (\<lambda>x. \<not> P x) xs) < length xs) = (\<exists>x\<in>set xs. P x)"
  by (induction xs) (auto simp: less_Suc_eq_le)

lemma addSongToScrobbleStorage_fields [simp]:
  "events (addSongToScrobbleStorage ids c) =
     events c @ (case ids of None \<Rightarrow> map ScrobblerGetId (scrobblerManager c) | Some x \<Rightarrow> [])"
  "mode (addSongToScrobbleStorage ids c) = mode c"
  "isEnabled (addSongToScrobbleStorage ids c) = isEnabled c"
  "currentSong (addSongToScrobbleStorage ids c) = currentSong c"
  "playbackTimer (addSongToScrobbleStorage ids c) = playbackTimer c"
  "replayDetectionTimer (addSongToScrobbleStorage ids c) = replayDetectionTimer c"
  "isReplayingSong (addSongToScrobbleStorage ids c) = isReplayingSong c"
  "shouldScrobblePodcasts (addSongToScrobbleStorage ids c) = shouldScrobblePodcasts c"
  "previousState (addSongToScrobbleStorage ids c) = previousState c"
  "scrobblerManager (addSongToScrobbleStorage ids c) = scrobblerManager c"
  by (simp_all add: addSongToScrobbleStorage_def split: option.split)

lemma scrobbleRequests_append:
  "scrobbleRequests (xs @ ys) = scrobbleRequests xs @ scrobbleRequests ys"
  by (induction xs rule: scrobbleRequests.induct) simp_all

lemma scrobbleRequests_getIds [simp]: "scrobbleRequests (map ScrobblerGetId ids) = []"
  by (induction ids) simp_all

lemma nowPlayingRequests_append:
  "nowPlayingRequests (xs @ ys) = nowPlayingRequests xs @ nowPlayingRequests ys"
  by (induction xs rule: nowPlayingRequests.induct) simp_all

lemma events_resetState [simp]: "events (resetState c) = events c @ [OnReset]"
  by (simp add: resetState_def)

lemma currentSong_resetState [simp]: "currentSong (resetState c) = None"
  by (simp add: resetState_def)

text \<open>What \<open>update\<close> does to a timer, read off its two results.\<close>

lemma timer_update_target [simp]: "target (fst (timer_update tgt t)) = tgt"
  by (simp add: timer_update_def split: option.split)

lemma timer_update_elapsed [simp]: "elapsed (fst (timer_update tgt t)) = elapsed t"
  by (simp add: timer_update_def split: option.split)

lemma timer_update_expired:
  "isExpired (fst (timer_update tgt t)) = (isExpired t \<or> snd (timer_update tgt t))"
  by (simp add: timer_update_def isExpired_def split: option.split)

lemma timer_update_None [simp]: "snd (timer_update None t) = False"
  by (simp add: timer_update_def)

lemma updatePlaybackTimer_eq:
  "updatePlaybackTimer tgt c =
     (if snd (timer_update tgt (playbackTimer c))
      then emit (SendScrobbleRequest (currentSong c))
             (c\<lparr>playbackTimer := fst (timer_update tgt (playbackTimer c))\<rparr>)
      else c\<lparr>playbackTimer := fst (timer_update tgt (playbackTimer c))\<rparr>)"
  by (simp add: updatePlaybackTimer_def scrobbleSong_request_def Let_def split: prod.split)

lemma updateReplayDetectionTimer_eq:
  "updateReplayDetectionTimer tgt c =
     c\<lparr>replayDetectionTimer := fst (timer_update tgt (replayDetectionTimer c)),
       isReplayingSong :=
         (snd (timer_update tgt (replayDetectionTimer c)) \<or> isReplayingSong c)\<rparr>"
  by (simp add: updateReplayDetectionTimer_def Let_def split: prod.split)

lemma updateTimers_eq:
  "updateTimers env d c =
     (if isExpired (playbackTimer c) \<or> getSecondsToScrobble env d = - 1 then c
      else updateReplayDetectionTimer (toOption d)
             (updatePlaybackTimer (Some (getSecondsToScrobble env d)) c))"
  by (simp add: updateTimers_def Let_def)

lemma updateTimers_frame [simp]:
  "mode (updateTimers env d c) = mode c"
  "currentSong (updateTimers env d c) = currentSong c"
  by (simp_all add: updateTimers_eq updatePlaybackTimer_eq updateReplayDetectionTimer_eq)

text \<open>\<^verbatim>\<open>processSong\<close> after the pipeline, by validity of the current song.\<close>

lemma processSong_invalid:
  assumes "currentSong c = Some s" "\<not> isValid s"
  shows "processSong_resume env c =
     Inr (emit OnSongUpdated (emit OnNowPlaying (setMode Unknown c)))"
  using assms by (simp add: processSong_resume_def setSongNotRecognized_def)

lemma processSong_valid:
  assumes "currentSong c = Some s" "isValid s"
  shows "processSong_resume env c =
     Inr (emit OnSongUpdated
       (let c2 = updateTimers env (getDuration s)
                   (c\<lparr>currentSong := Some (s\<lparr>isMarkedAsPlaying := False\<rparr>)\<rparr>)
        in if songIsPlaying s then
             (if \<not> isExpired (playbackTimer c2)
              then emit (SendNowPlayingRequest (s\<lparr>isMarkedAsPlaying := True\<rparr>))
                     (c2\<lparr>currentSong := Some (s\<lparr>isMarkedAsPlaying := True\<rparr>)\<rparr>)
              else emit OnNowPlaying c2)
           else setMode Base c2))"
  using assms
  by (simp add: processSong_resume_def Let_def detached_def setSongNowPlaying_request_def
      songIsPlaying_def getDuration_def)

text \<open>\<^verbatim>\<open>processNewState\<close> never fails and leaves a fresh session behind.\<close>

lemma processNewState_result:
  "\<exists>c'. processNewState st c = Inr c' \<and>
     currentSong c' =
       Some ((SongImpl st)\<lparr>isReplaying := isReplayingSong c,
               isSkipped := (\<not> shouldScrobblePodcasts c \<and> isPodcast st)\<rparr>) \<and>
     isEnabled c' = isEnabled c"
  by (simp add: processNewState_def Let_def skipCurrentSong_def assertSongIsPlaying_def
      resetState_def SongImpl_def)

text \<open>A timer that is idle neither accumulates nor fires.\<close>

lemma timer_advance_idle: "idleTimer t \<Longrightarrow> timer_advance dt t = (t, False)"
  by (simp add: idleTimer_def timer_advance_def)

lemma timer_update_idle:
  "idleTimer t \<Longrightarrow> idleTimer (fst (timer_update tgt t)) \<and> \<not> snd (timer_update tgt t)"
  by (simp add: idleTimer_def timer_update_def split: option.split)

lemma idleTimer_newTimer [simp]: "idleTimer newTimer"
  by (simp add: idleTimer_def newTimer_def)

lemma advance_idle:
  assumes "idleTimer (playbackTimer c)" "idleTimer (replayDetectionTimer c)"
  shows "advance dt c = c"
  using assms by (simp add: advance_def timer_advance_idle)

lemma updateTimers_idle:
  assumes "idleTimer (playbackTimer c)" "idleTimer (replayDetectionTimer c)"
  shows "idleTimer (playbackTimer (updateTimers env d c)) \<and>
    idleTimer (replayDetectionTimer (updateTimers env d c)) \<and>
    isReplayingSong (updateTimers env d c) = isReplayingSong c \<and>
    events (updateTimers env d c) = events c \<and>
    previousState (updateTimers env d c) = previousState c"
  using assms timer_update_idle [of "playbackTimer c" "Some (getSecondsToScrobble env d)"]
    timer_update_idle [of "replayDetectionTimer c" "toOption d"]
  by (simp add: updateTimers_eq updatePlaybackTimer_eq updateReplayDetectionTimer_eq)

lemma sameItem_not_changed:
  "previousState c = Some q \<Longrightarrow> sameItem p q \<Longrightarrow> sameItem p st \<Longrightarrow>
     \<not> isSongChanged st c"
  by (simp add: isSongChanged_def fieldsToCheckSongChange_def sameItem_def)

lemma skip_result:
  assumes "currentSong c = Some s"
  shows "skipCurrentSong c =
     Inr (emit OnSongUpdated
            ((setMode Skipped c)\<lparr>currentSong := Some (s\<lparr>isSkipped := True\<rparr>),
               playbackTimer := newTimer, replayDetectionTimer := newTimer\<rparr>))"
  using assms
  by (simp add: skipCurrentSong_def assertSongIsPlaying_def Let_def timer_reset_def)

text \<open>A skipped session with idle timers keeps its timing fields, and no timer fires.\<close>

lemma snapshot_quiet:
  assumes "skippedQuiet p f c" "sameItem p st" "\<not> util_isStateEmpty env st"
  shows "onStateChanged env st c =
     Inr (if isEnabled c then c\<lparr>previousState := Some st\<rparr> else c)"
proof -
  obtain s q where s: "currentSong c = Some s" "isSkipped s"
    and q: "previousState c = Some q" "sameItem p q" and r: "\<not> isReplayingSong c"
    using assms(1) by (auto simp: skippedQuiet_def split: option.splits)
  have "\<not> isSongChanged st c"
    using sameItem_not_changed [OF q assms(2)] .
  then show ?thesis
    using s r assms(3) by (simp add: onStateChanged_def Let_def processCurrentState_def)
qed

lemma pipelineDone_quiet:
  assumes "skippedQuiet p f c"
  shows "\<exists>c'. processSong_resume env c = Inr c' \<and> skippedQuiet p f c' \<and>
           scrobbleRequests (events c') = scrobbleRequests (events c)"
proof -
  obtain s where s: "currentSong c = Some s" "isSkipped s" "timingFields s = f"
    using assms by (auto simp: skippedQuiet_def split: option.splits)
  have idle: "idleTimer (playbackTimer c)" "idleTimer (replayDetectionTimer c)"
    using assms by (simp_all add: skippedQuiet_def)
  show ?thesis
  proof (cases "isValid s")
    case False
    then show ?thesis
      using assms s by (simp add: processSong_invalid skippedQuiet_def scrobbleRequests_append)
  next
    case True
    let ?c1 = "c\<lparr>currentSong := Some (s\<lparr>isMarkedAsPlaying := False\<rparr>)\<rparr>"
    let ?c2 = "updateTimers env (getDuration s) ?c1"
    have u: "idleTimer (playbackTimer ?c2)" "idleTimer (replayDetectionTimer ?c2)"
      "isReplayingSong ?c2 = isReplayingSong c" "events ?c2 = events c"
      "previousState ?c2 = previousState c"
      using updateTimers_idle [of ?c1 env "getDuration s"] idle by simp_all
    have ne: "\<not> isExpired (playbackTimer ?c2)"
      using u(1) by (simp add: idleTimer_def isExpired_def)
    show ?thesis
      using assms s u ne
      by (simp add: processSong_valid [OF s(1) True] Let_def skippedQuiet_def
          timingFields_def scrobbleRequests_append)
  qed
qed

lemma scrobbleDone_quiet:
  assumes "skippedQuiet p f c"
  shows "\<exists>c'. scrobbleSong_resume results c = Inr c' \<and> skippedQuiet p f c' \<and>
           scrobbleRequests (events c') = scrobbleRequests (events c)"
proof -
  obtain s where s: "currentSong c = Some s" "isSkipped s" "timingFields s = f"
    using assms by (auto simp: skippedQuiet_def split: option.splits)
  show ?thesis
    using assms s
    by (simp add: scrobbleSong_resume_def Let_def skippedQuiet_def timingFields_def
        scrobbleRequests_append)
qed

lemma skip_quiet:
  assumes "skippedQuiet p f c"
  shows "\<exists>c'. skipCurrentSong c = Inr c' \<and> skippedQuiet p f c' \<and>
           scrobbleRequests (events c') = scrobbleRequests (events c)"
proof -
  obtain s where s: "currentSong c = Some s" "isSkipped s" "timingFields s = f"
    using assms by (auto simp: skippedQuiet_def split: option.splits)
  show ?thesis
    using assms s
    by (simp add: skip_result [OF s(1)] skippedQuiet_def timingFields_def
        scrobbleRequests_append)
qed

lemma step_quiet:
  assumes "skippedQuiet p f c" "afterSkipInput env p i"
  shows "\<exists>c'. step env i c = Inr c' \<and> skippedQuiet p f c' \<and>
           scrobbleRequests (events c') = scrobbleRequests (events c)"
proof (cases i)
  case (Snapshot st)
  then show ?thesis
    using assms snapshot_quiet [of p f c st env] by (auto simp: skippedQuiet_def)
next
  case (Tick dt)
  then show ?thesis
    using assms advance_idle [of c dt] by (simp add: skippedQuiet_def)
next
  case PipelineDone
  then show ?thesis
    using pipelineDone_quiet [OF assms(1)] by simp
next
  case (ScrobbleDone results)
  then show ?thesis
    using scrobbleDone_quiet [OF assms(1)] by simp
next
  case (NowPlayingDone results)
  then show ?thesis
    using assms(1)
    by (simp add: setSongNowPlaying_resume_def skippedQuiet_def scrobbleRequests_append)
next
  case Skip
  then show ?thesis
    using skip_quiet [OF assms(1)] by simp
qed

lemma run_quiet:
  assumes "skippedQuiet p f c" "\<forall>i\<in>set inputs. afterSkipInput env p i"
  shows "\<exists>c'. run env inputs c = Inr c' \<and> skippedQuiet p f c' \<and>
           scrobbleRequests (events c') = scrobbleRequests (events c)"
  using assms
proof (induction inputs arbitrary: c)
  case Nil
  then show ?case by simp
next
  case (Cons i rest)
  obtain c1 where c1: "step env i c = Inr c1" "skippedQuiet p f c1"
      "scrobbleRequests (events c1) = scrobbleRequests (events c)"
    using step_quiet [of p f c env i] Cons.prems by auto
  obtain c2 where "run env rest c1 = Inr c2" "skippedQuiet p f c2"
      "scrobbleRequests (events c2) = scrobbleRequests (events c1)"
    using Cons.IH [OF c1(2)] Cons.prems(2) by auto
  then show ?case
    using c1 by simp
qed

section \<open>The same-item detector\<close>

text \<open>
  Claim C3. The detector compares a new snapshot with the recorded previous one: they
  are the same item exactly when artist, track, album and uniqueID are strictly equal
  field by field, so a field that goes from known to unknown (to \<^verbatim>\<open>null\<close> or to
  absent), or from \<^verbatim>\<open>null\<close> to absent, makes a different item, and a snapshot that
  differs from the previous one in currentTime, isPlaying, trackArt and duration only is
  the same item. Without a recorded previous snapshot the new one is always a different
  item.
\<close>

theorem isSongChanged_iff_identity_differs:
  "(isSongChanged newState c =
      (case previousState c of
         None \<Rightarrow> True
       | Some prev \<Rightarrow>
           \<not> (artist newState = artist prev \<and> track newState = track prev \<and>
              album newState = album prev \<and> uniqueID newState = uniqueID prev))) \<and>
   isSongChanged
     (prev\<lparr>currentTime := t, isPlaying := p, trackArt := a, duration := d\<rparr>)
     (c\<lparr>previousState := Some prev\<rparr>) = False \<and>
   isSongChanged newState (c\<lparr>previousState := None\<rparr>) = True"
  by (simp add: isSongChanged_def fieldsToCheckSongChange_def split: option.split)

theorem isSongChanged_iff_identity_differs_witness:
  "isSongChanged stateB ctlA = True \<and>
   isSongChanged (stateA\<lparr>currentTime := JsVal 17, isPlaying := False\<rparr>) ctlA = False \<and>
   isSongChanged (stateA\<lparr>album := JsVal ''Album A''\<rparr>) ctlA = True \<and>
   isSongChanged (stateA\<lparr>album := JsUndefined\<rparr>) ctlA = True \<and>
   isSongChanged (stateA\<lparr>track := JsNull\<rparr>) ctlA = True \<and>
   isSongChanged stateA ctl0 = True"
  using isSongChanged_iff_identity_differs [of stateB ctlA]
    isSongChanged_iff_identity_differs
      [of "stateA\<lparr>currentTime := JsVal 17, isPlaying := False\<rparr>" ctlA]
    isSongChanged_iff_identity_differs [of "stateA\<lparr>album := JsVal ''Album A''\<rparr>" ctlA]
    isSongChanged_iff_identity_differs [of "stateA\<lparr>album := JsUndefined\<rparr>" ctlA]
    isSongChanged_iff_identity_differs [of "stateA\<lparr>track := JsNull\<rparr>" ctlA]
    isSongChanged_iff_identity_differs [of stateA ctl0]
  by (simp add: ctlA_def ctl0_def newController_def stateA_def stateB_def)

section \<open>The outcome of a scrobble attempt\<close>

text \<open>
  Claim C1, as the code has it. The results of a scrobble attempt are aggregated on the
  session that is current when they arrive; the controller does not record which
  session the attempt was made for. If at least one service answered Ok and there is a
  current session, that session is flagged as scrobbled and the mode is Scrobbled. If
  no service answered Ok, the current session, if any, is left as it is, its scrobbled
  flag included, and the mode is Ignored when all services answered Ignore and Err
  otherwise.
\<close>

theorem scrobbleSong_outcome_on_current_session:
  "((\<exists>r\<in>set results. resultType r = RESULT_OK) \<longrightarrow>
      (\<forall>s. currentSong c = Some s \<longrightarrow>
         (\<exists>c'. scrobbleSong_resume results c = Inr c' \<and>
            currentSong c' = Some (s\<lparr>isScrobbled := True\<rparr>) \<and> mode c' = Scrobbled))) \<and>
   (\<not> (\<exists>r\<in>set results. resultType r = RESULT_OK) \<longrightarrow>
      (\<exists>c'. scrobbleSong_resume results c = Inr c' \<and> currentSong c' = currentSong c \<and>
         mode c' =
           (if \<forall>r\<in>set results. resultType r = RESULT_IGNORE then Ignored else Err)))"
  by (simp add: scrobbleSong_resume_def Let_def some_ok_iff_fewer_failed is_result_def
      areAllResults_def list_all_iff)

theorem scrobbleSong_outcome_on_current_session_witness:
  "(\<exists>c'. scrobbleSong_resume [errorResult ''lastfm'', okResult ''librefm''] ctlA = Inr c' \<and>
      currentSong c' = Some (songA\<lparr>isScrobbled := True\<rparr>) \<and> mode c' = Scrobbled) \<and>
   (\<exists>c'. scrobbleSong_resume [ignoreResult ''lastfm'', ignoreResult ''librefm''] ctlA = Inr c' \<and>
      currentSong c' = Some songA \<and> mode c' = Ignored) \<and>
   (\<exists>c'. scrobbleSong_resume [ignoreResult ''lastfm'', errorResult ''librefm''] ctl0 = Inr c' \<and>
      currentSong c' = None \<and> mode c' = Err)"
  using scrobbleSong_outcome_on_current_session
      [of "[errorResult ''lastfm'', okResult ''librefm'']" ctlA]
    scrobbleSong_outcome_on_current_session
      [of "[ignoreResult ''lastfm'', ignoreResult ''librefm'']" ctlA]
    scrobbleSong_outcome_on_current_session
      [of "[ignoreResult ''lastfm'', errorResult ''librefm'']" ctl0]
  by (simp add: ctlA_def ctl0_def newController_def okResult_def ignoreResult_def
      errorResult_def)

text \<open>
  The claim as written fails. The playback timer of song A fires and the scrobble
  request is sent; an empty snapshot resets the session before the results arrive; the
  Ok result then flags no session and sets no mode: the attempt ends in an exception.
\<close>

theorem scrobbleSong_outcome_counterexample:
  "map_sum id events (run sampleEnv [Tick 60] ctlA) =
     Inr [SendScrobbleRequest (Some songA)] \<and>
   run sampleEnv [Tick 60, Snapshot emptyState, ScrobbleDone [okResult ''lastfm'']] ctlA =
     Inl TypeError"
  by (simp add: run_defs ctlA_def songA_def okResult_def)

text \<open>
  Claim C2. Song A is scrobbled; one service accepts and one fails. The identifier of
  the failed service is computed and passed to \<^verbatim>\<open>addSongToScrobbleStorage\<close>, but the
  controller makes no call after it has set the mode and notified the listener:
  nothing is handed to the storage of unsent songs. The same holds when every service
  fails.
\<close>

theorem failed_scrobble_is_not_stored:
  "notOkIds [okResult ''lastfm'', errorResult ''librefm''] = [''librefm''] \<and>
   map_sum id events
     (run sampleEnv [Tick 60, ScrobbleDone [okResult ''lastfm'', errorResult ''librefm'']]
        ctlA) =
     Inr [SendScrobbleRequest (Some songA), OnModeChanged Scrobbled, OnSongUpdated] \<and>
   map_sum id events
     (run sampleEnv [Tick 60, ScrobbleDone [errorResult ''lastfm'', errorResult ''librefm'']]
        ctlA) =
     Inr [SendScrobbleRequest (Some songA), OnModeChanged Err]"
  by (simp add: run_defs ctlA_def songA_def okResult_def errorResult_def notOkIds_def)

section \<open>After the pipeline has resolved\<close>

text \<open>
  Claim C4, as the code has it. When the pipeline has resolved for a controller that has
  a session, with \<open>t\<close> the scrobble threshold of the session's duration:

  \<^item> A valid session whose playback timer has not fired and for which a threshold
    exists gets the playback timer retargeted to \<open>t\<close> and the replay timer to the
    duration, the elapsed time kept; otherwise the timers of a valid session are left
    as they are.
  \<^item> If the session is valid and playing, and the playback timer has not fired and does
    not fire on being retargeted, the session is flagged and a now-playing request is
    sent.
  \<^item> If the session is valid and playing and the playback timer has fired before, only
    the now-playing listener and the song listener are notified.
  \<^item> If the session is valid and playing and the playback timer fires on being
    retargeted, because the elapsed time has already reached \<open>t\<close>, the scrobble
    request is sent and the listeners are notified, and no now-playing request is sent.
  \<^item> If the session is valid and not playing, the mode is Base and no now-playing
    request is sent.
  \<^item> If the session is not valid, the mode is Unknown, the now-playing listener and the
    song listener are notified, nothing is sent to a service and the session and the
    timers are left as they are.
\<close>

theorem processSong_after_enrichment:
  assumes "currentSong c = Some s"
  shows "\<exists>c'. processSong_resume env c = Inr c' \<and>
     (isValid s \<and> \<not> isExpired (playbackTimer c) \<and>
        getSecondsToScrobble env (getDuration s) \<noteq> - 1 \<longrightarrow>
          target (playbackTimer c') = Some (getSecondsToScrobble env (getDuration s)) \<and>
          target (replayDetectionTimer c') = toOption (getDuration s) \<and>
          elapsed (playbackTimer c') = elapsed (playbackTimer c) \<and>
          elapsed (replayDetectionTimer c') = elapsed (replayDetectionTimer c)) \<and>
     (isValid s \<and>
        (isExpired (playbackTimer c) \<or> getSecondsToScrobble env (getDuration s) = - 1) \<longrightarrow>
          playbackTimer c' = playbackTimer c \<and>
          replayDetectionTimer c' = replayDetectionTimer c) \<and>
     (isValid s \<and> songIsPlaying s \<and> \<not> isExpired (playbackTimer c) \<and>
        \<not> (getSecondsToScrobble env (getDuration s) \<noteq> - 1 \<and>
           updateFires (getSecondsToScrobble env (getDuration s)) (playbackTimer c)) \<longrightarrow>
          currentSong c' = Some (s\<lparr>isMarkedAsPlaying := True\<rparr>) \<and>
          events c' =
            events c @
              [SendNowPlayingRequest (s\<lparr>isMarkedAsPlaying := True\<rparr>), OnSongUpdated] \<and>
          mode c' = mode c) \<and>
     (isValid s \<and> songIsPlaying s \<and> isExpired (playbackTimer c) \<longrightarrow>
          currentSong c' = Some (s\<lparr>isMarkedAsPlaying := False\<rparr>) \<and>
          events c' = events c @ [OnNowPlaying, OnSongUpdated] \<and>
          mode c' = mode c) \<and>
     (isValid s \<and> songIsPlaying s \<and> \<not> isExpired (playbackTimer c) \<and>
        getSecondsToScrobble env (getDuration s) \<noteq> - 1 \<and>
        updateFires (getSecondsToScrobble env (getDuration s)) (playbackTimer c) \<longrightarrow>
          currentSong c' = Some (s\<lparr>isMarkedAsPlaying := False\<rparr>) \<and>
          events c' =
            events c @
              [SendScrobbleRequest (Some (s\<lparr>isMarkedAsPlaying := False\<rparr>)),
               OnNowPlaying, OnSongUpdated] \<and>
          mode c' = mode c) \<and>
     (isValid s \<and> \<not> songIsPlaying s \<longrightarrow>
          mode c' = Base \<and> currentSong c' = Some (s\<lparr>isMarkedAsPlaying := False\<rparr>) \<and>
          nowPlayingRequests (events c') = nowPlayingRequests (events c)) \<and>
     (\<not> isValid s \<longrightarrow>
          mode c' = Unknown \<and> currentSong c' = Some s \<and>
          events c' = events c @ [OnModeChanged Unknown, OnNowPlaying, OnSongUpdated] \<and>
          playbackTimer c' = playbackTimer c \<and>
          replayDetectionTimer c' = replayDetectionTimer c)"
proof (cases "isValid s")
  case False
  then show ?thesis
    using assms by (simp add: processSong_invalid)
next
  case True
  let ?t = "getSecondsToScrobble env (getDuration s)"
  let ?c1 = "c\<lparr>currentSong := Some (s\<lparr>isMarkedAsPlaying := False\<rparr>)\<rparr>"
  let ?c2 = "updateTimers env (getDuration s) ?c1"
  have res: "processSong_resume env c =
     Inr (emit OnSongUpdated
       (if songIsPlaying s then
          (if \<not> isExpired (playbackTimer ?c2)
           then emit (SendNowPlayingRequest (s\<lparr>isMarkedAsPlaying := True\<rparr>))
                  (?c2\<lparr>currentSong := Some (s\<lparr>isMarkedAsPlaying := True\<rparr>)\<rparr>)
           else emit OnNowPlaying ?c2)
        else setMode Base ?c2))"
    using processSong_valid [OF assms True, of env] by (simp add: Let_def)
  show ?thesis
  proof (cases "isExpired (playbackTimer c) \<or> ?t = - 1")
    case True
    then have same: "?c2 = ?c1"
      by (simp add: updateTimers_eq)
    show ?thesis
      using \<open>isValid s\<close> True res unfolding same
      by (auto simp add: nowPlayingRequests_append)
  next
    case False
    then have ne: "\<not> isExpired (playbackTimer c)" and th: "?t \<noteq> - 1"
      by simp_all
    have tg: "target (playbackTimer ?c2) = Some ?t \<and>
        target (replayDetectionTimer ?c2) = toOption (getDuration s) \<and>
        elapsed (playbackTimer ?c2) = elapsed (playbackTimer c) \<and>
        elapsed (replayDetectionTimer ?c2) = elapsed (replayDetectionTimer c)"
      using ne th
      by (simp add: updateTimers_eq updatePlaybackTimer_eq updateReplayDetectionTimer_eq)
    have ex: "isExpired (playbackTimer ?c2) = updateFires ?t (playbackTimer c)"
      using ne th
      by (simp add: updateTimers_eq updatePlaybackTimer_eq updateReplayDetectionTimer_eq
          timer_update_expired updateFires_def)
    have ev: "events ?c2 = events c @
        (if updateFires ?t (playbackTimer c)
         then [SendScrobbleRequest (Some (s\<lparr>isMarkedAsPlaying := False\<rparr>))] else [])"
      using ne th
      by (simp add: updateTimers_eq updatePlaybackTimer_eq updateReplayDetectionTimer_eq
          updateFires_def)
    show ?thesis
    proof (cases "songIsPlaying s")
      case False
      then show ?thesis
        using \<open>isValid s\<close> ne th res tg ev by (simp add: nowPlayingRequests_append)
    next
      case True
      then show ?thesis
        using \<open>isValid s\<close> ne th res tg ev ex by (simp add: nowPlayingRequests_append)
    qed
  qed
qed


theorem processSong_after_enrichment_witness:
  "(\<exists>c'. processSong_resume sampleEnv ctlValidA = Inr c' \<and>
      target (playbackTimer c') = Some 100 \<and> target (replayDetectionTimer c') = Some 200 \<and>
      elapsed (playbackTimer c') = 40 \<and>
      events c' =
        [SendNowPlayingRequest ((SongImpl stateA)\<lparr>s_valid := True, isMarkedAsPlaying := True\<rparr>),
         OnSongUpdated]) \<and>
   (\<exists>c'. processSong_resume sampleEnv ctlExpiredA = Inr c' \<and>
      events c' = [OnNowPlaying, OnSongUpdated] \<and>
      playbackTimer c' = playbackTimer ctlExpiredA) \<and>
   (\<exists>c'. processSong_resume sampleEnv ctlLateA = Inr c' \<and>
      events c' =
        [SendScrobbleRequest (Some ((SongImpl stateA)\<lparr>s_valid := True\<rparr>)),
         OnNowPlaying, OnSongUpdated]) \<and>
   (\<exists>c'. processSong_resume sampleEnv
            (ctlValidA\<lparr>currentSong := Some (songA\<lparr>s_isPlaying := False\<rparr>)\<rparr>) = Inr c' \<and>
      mode c' = Base) \<and>
   (\<exists>c'. processSong_resume sampleEnv ctlLoadingA = Inr c' \<and> mode c' = Unknown \<and>
      events c' = [OnModeChanged Unknown, OnNowPlaying, OnSongUpdated])"
proof (intro conjI)
  let ?s = "(SongImpl stateA)\<lparr>s_valid := True\<rparr>"
  have song: "isValid ?s" "songIsPlaying ?s" "getDuration ?s = JsVal 200"
    "?s\<lparr>isMarkedAsPlaying := False\<rparr> = ?s"
    by (simp_all add: SongImpl_def stateA_def isValid_def songIsPlaying_def getDuration_def)
  have t: "getSecondsToScrobble sampleEnv (JsVal 200) = 100"
    by (simp add: getSecondsToScrobble_def sampleEnv_def spec_getSecondsToScrobble_def)
  have a: "currentSong ctlValidA = Some ?s" "events ctlValidA = []"
    "isExpired (playbackTimer ctlValidA) = False"
    "updateFires 100 (playbackTimer ctlValidA) = False"
    "elapsed (playbackTimer ctlValidA) = 40"
    by (simp_all add: ctlValidA_def ctl0_def newController_def isExpired_def updateFires_def
        timer_update_def)
  show "\<exists>c'. processSong_resume sampleEnv ctlValidA = Inr c' \<and>
      target (playbackTimer c') = Some 100 \<and> target (replayDetectionTimer c') = Some 200 \<and>
      elapsed (playbackTimer c') = 40 \<and>
      events c' =
        [SendNowPlayingRequest ((SongImpl stateA)\<lparr>s_valid := True, isMarkedAsPlaying := True\<rparr>),
         OnSongUpdated]"
    using processSong_after_enrichment [OF a(1), of sampleEnv]
    by (auto simp add: song t a)
  have l: "currentSong ctlLateA = Some ?s" "events ctlLateA = []"
    "isExpired (playbackTimer ctlLateA) = False"
    "updateFires 100 (playbackTimer ctlLateA) = True"
    by (simp_all add: ctlLateA_def ctlLoadingA_def ctl0_def newController_def isExpired_def
        updateFires_def timer_update_def)
  show "\<exists>c'. processSong_resume sampleEnv ctlLateA = Inr c' \<and>
      events c' =
        [SendScrobbleRequest (Some ((SongImpl stateA)\<lparr>s_valid := True\<rparr>)),
         OnNowPlaying, OnSongUpdated]"
    using processSong_after_enrichment [OF l(1), of sampleEnv]
    by (auto simp add: song t l)
next
  have s: "currentSong ctlExpiredA = Some songA" "events ctlExpiredA = []"
    "isExpired (playbackTimer ctlExpiredA) = True" "isValid songA" "songIsPlaying songA"
    by (simp_all add: ctlExpiredA_def ctlA_def ctl0_def newController_def isExpired_def
        songA_def SongImpl_def stateA_def isValid_def songIsPlaying_def)
  show "\<exists>c'. processSong_resume sampleEnv ctlExpiredA = Inr c' \<and>
      events c' = [OnNowPlaying, OnSongUpdated] \<and>
      playbackTimer c' = playbackTimer ctlExpiredA"
    using processSong_after_enrichment [OF s(1), of sampleEnv]
    by (auto simp add: s)
next
  let ?s = "songA\<lparr>s_isPlaying := False\<rparr>"
  let ?c = "ctlValidA\<lparr>currentSong := Some ?s\<rparr>"
  have s: "currentSong ?c = Some ?s" "isValid ?s" "songIsPlaying ?s = False"
    by (simp_all add: songA_def SongImpl_def isValid_def songIsPlaying_def)
  show "\<exists>c'. processSong_resume sampleEnv ?c = Inr c' \<and> mode c' = Base"
    using processSong_after_enrichment [OF s(1), of sampleEnv] s(2,3) by auto
next
  have s: "currentSong ctlLoadingA = Some (SongImpl stateA)" "events ctlLoadingA = []"
    "isValid (SongImpl stateA) = False"
    by (simp_all add: ctlLoadingA_def ctl0_def newController_def SongImpl_def isValid_def)
  show "\<exists>c'. processSong_resume sampleEnv ctlLoadingA = Inr c' \<and> mode c' = Unknown \<and>
      events c' = [OnModeChanged Unknown, OnNowPlaying, OnSongUpdated]"
    using processSong_after_enrichment [OF s(1), of sampleEnv]
    by (auto simp add: s)
qed

text \<open>
  The claim as written fails. Song A is valid and playing and its playback timer has
  not fired while the pipeline was at work, but 150 seconds have passed and the
  threshold is 100: retargeting fires the timer, the scrobble request is sent, and no
  now-playing request is.
\<close>

theorem processSong_after_enrichment_counterexample:
  "isExpired (playbackTimer ctlLateA) = False \<and>
   map_sum id events (run sampleEnv [PipelineDone] ctlLateA) =
     Inr [SendScrobbleRequest (Some ((SongImpl stateA)\<lparr>s_valid := True\<rparr>)),
          OnNowPlaying, OnSongUpdated] \<and>
   map_sum id (nowPlayingRequests \<circ> events) (run sampleEnv [PipelineDone] ctlLateA) =
     Inr []"
  by (simp add: run_defs ctlLateA_def ctlLoadingA_def isExpired_def songIsPlaying_def
      updateTimers_def updatePlaybackTimer_def updateReplayDetectionTimer_def
      timer_update_def)

section \<open>Deferred reporting of a session that was never valid\<close>

text \<open>
  Claim C6. Song A plays for 150 seconds, past its threshold of 100 seconds, and is
  never validated, so the check for deferred reporting holds. When a playing snapshot
  of song B replaces it, the controller asks both scrobblers for their identifiers and
  goes on to the new session; it makes no other call, so the session of song A is
  handed to no storage.
\<close>

theorem qualifying_session_is_not_stored:
  "map_sum id (isNeedToAddSongToScrobbleStorage sampleEnv)
     (run sampleEnv [Snapshot stateA, Tick 150] ctl0) = Inr True \<and>
   map_sum id events
     (run sampleEnv [Snapshot stateA, Tick 150, Snapshot stateB] ctl0) =
     Inr [OnReset, OnModeChanged Loading, PipelineProcess (Some (SongImpl stateA)),
          ScrobblerGetId ''lastfm'', ScrobblerGetId ''librefm'',
          OnReset, OnModeChanged Loading, PipelineProcess (Some (SongImpl stateB))]"
  by (simp add: run_defs)

section \<open>User edits\<close>

text \<open>
  What the two operations check. Without a session both throw. With a session,
  \<^verbatim>\<open>setUserSongData\<close> throws when the session is flagged as scrobbled and clears it
  otherwise; \<^verbatim>\<open>resetSongData\<close> clears it in either case.
\<close>

lemma user_data_checks:
  "(currentSong c = None \<longrightarrow>
      setUserSongData d c = Inl (Error ''No song is now playing'') \<and>
      resetSongData c = Inl (Error ''No song is now playing'')) \<and>
   (\<forall>s. currentSong c = Some s \<longrightarrow>
      (if isScrobbled s
       then setUserSongData d c = Inl (Error ''Unable to set user data for scrobbled song'')
       else \<exists>c'. setUserSongData d c = Inr c' \<and> currentSong c' = None) \<and>
      (\<exists>c'. resetSongData c = Inr c' \<and> currentSong c' = None))"
  by (simp add: setUserSongData_def resetSongData_def assertSongIsPlaying_def
      unprocessSong_def updatePlaybackTimer_eq updateReplayDetectionTimer_eq)

text \<open>
  Claim C7. Without a session both \<^verbatim>\<open>setUserSongData\<close> and \<^verbatim>\<open>resetSongData\<close> throw.
  On a session that is flagged as scrobbled \<^verbatim>\<open>setUserSongData\<close> throws, while
  \<^verbatim>\<open>resetSongData\<close> does not: it returns with the session cleared.
\<close>

theorem resetSongData_scrobbled_does_not_throw:
  "setUserSongData userEdit ctl0 = Inl (Error ''No song is now playing'') \<and>
   resetSongData ctl0 = Inl (Error ''No song is now playing'') \<and>
   setUserSongData userEdit ctlScrobbledA =
     Inl (Error ''Unable to set user data for scrobbled song'') \<and>
   map_sum id currentSong (resetSongData ctlScrobbledA) = Inr None"
  by (simp add: setUserSongData_def resetSongData_def assertSongIsPlaying_def
      ctlScrobbledA_def ctl0_def newController_def unprocessSong_def
      updatePlaybackTimer_eq updateReplayDetectionTimer_eq)

section \<open>Ending a session on a changed item that is not playing\<close>

text \<open>
  Claim C5. Song A plays for 150 seconds, past its threshold of 100 seconds, and is
  never validated. When a snapshot of another item that is not playing arrives, the
  controller resets to Base without a session and without having made the check for
  deferred reporting, although that check holds: it makes no call between the start of
  song A and the reset. When an empty snapshot arrives instead, the check is made: the
  controller asks both scrobblers for their identifiers before the reset.
\<close>

theorem changed_item_not_playing_drops_partial_credit:
  "map_sum id (isNeedToAddSongToScrobbleStorage sampleEnv)
     (run sampleEnv [Snapshot stateA, Tick 150] ctl0) = Inr True \<and>
   map_sum id mode
     (run sampleEnv [Snapshot stateA, Tick 150, Snapshot (stateB\<lparr>isPlaying := False\<rparr>)]
        ctl0) = Inr Base \<and>
   map_sum id currentSong
     (run sampleEnv [Snapshot stateA, Tick 150, Snapshot (stateB\<lparr>isPlaying := False\<rparr>)]
        ctl0) = Inr None \<and>
   map_sum id events
     (run sampleEnv [Snapshot stateA, Tick 150, Snapshot (stateB\<lparr>isPlaying := False\<rparr>)]
        ctl0) =
     Inr [OnReset, OnModeChanged Loading, PipelineProcess (Some (SongImpl stateA)),
          OnReset, OnModeChanged Base] \<and>
   map_sum id events
     (run sampleEnv [Snapshot stateA, Tick 150, Snapshot emptyState] ctl0) =
     Inr [OnReset, OnModeChanged Loading, PipelineProcess (Some (SongImpl stateA)),
          ScrobblerGetId ''lastfm'', ScrobblerGetId ''librefm'',
          OnReset, OnModeChanged Base]"
  by (simp add: run_defs)

section \<open>The same-item path without a session\<close>

text \<open>
  Claim C10. Song A is playing when an empty snapshot arrives; the controller resets
  and keeps the previous snapshot. The next snapshot of song A is classified as the
  same item, so \<^verbatim>\<open>processCurrentState\<close> runs and reads a flag of the current song,
  which is \<^verbatim>\<open>null\<close>: the call ends in a TypeError. The same happens when a snapshot
  of another item that is not playing is followed by a snapshot of that item.
\<close>

theorem same_item_after_reset_dereferences_null:
  "run sampleEnv [Snapshot stateA, Snapshot emptyState, Snapshot stateA] ctl0 =
     Inl TypeError \<and>
   run sampleEnv [Snapshot stateA, Snapshot (stateB\<lparr>isPlaying := False\<rparr>), Snapshot stateB]
     ctl0 = Inl TypeError"
  by (simp add: run_defs)

section \<open>Skipping the current song\<close>

text \<open>
  Claim C8, as the code has it. \<^verbatim>\<open>skipCurrentSong\<close> throws without a session. With a
  session it sets the mode to Skipped, flags the session as skipped and resets both
  timers, whose elapsed time then reads zero. If the replay flag of the controller is
  not set at that moment, then from then on, whatever snapshots of the same item
  arrive, however much time passes, and whatever completions or further skips come in,
  the session stays skipped and keeps its current time, duration, playing flag and
  track art, no scrobble request is sent, the playback timer does not fire, and both
  timers keep reading zero.
\<close>

theorem skipCurrentSong_freezes_timing:
  "(currentSong c = None \<longrightarrow> skipCurrentSong c = Inl (Error ''No song is now playing'')) \<and>
   (\<forall>s. currentSong c = Some s \<longrightarrow>
      (\<exists>c'. skipCurrentSong c = Inr c' \<and> mode c' = Skipped \<and>
         currentSong c' = Some (s\<lparr>isSkipped := True\<rparr>) \<and>
         getElapsed (playbackTimer c') = 0 \<and> getElapsed (replayDetectionTimer c') = 0 \<and>
         (\<forall>p inputs. previousState c = Some p \<and> \<not> isReplayingSong c \<and>
            (\<forall>i\<in>set inputs. afterSkipInput env p i) \<longrightarrow>
            (\<exists>c'' s''. run env inputs c' = Inr c'' \<and> currentSong c'' = Some s'' \<and>
               isSkipped s'' \<and> timingFields s'' = timingFields s \<and>
               scrobbleRequests (events c'') = scrobbleRequests (events c') \<and>
               \<not> isExpired (playbackTimer c'') \<and>
               getElapsed (playbackTimer c'') = 0 \<and>
               getElapsed (replayDetectionTimer c'') = 0))))"
proof (intro conjI allI impI)
  assume "currentSong c = None"
  then show "skipCurrentSong c = Inl (Error ''No song is now playing'')"
    by (simp add: skipCurrentSong_def assertSongIsPlaying_def)
next
  fix s
  assume s: "currentSong c = Some s"
  let ?c' = "emit OnSongUpdated
            ((setMode Skipped c)\<lparr>currentSong := Some (s\<lparr>isSkipped := True\<rparr>),
               playbackTimer := newTimer, replayDetectionTimer := newTimer\<rparr>)"
  have r: "skipCurrentSong c = Inr ?c'"
    using skip_result [OF s] .
  have "\<exists>c'' s''. run env inputs ?c' = Inr c'' \<and> currentSong c'' = Some s'' \<and>
               isSkipped s'' \<and> timingFields s'' = timingFields s \<and>
               scrobbleRequests (events c'') = scrobbleRequests (events ?c') \<and>
               \<not> isExpired (playbackTimer c'') \<and>
               getElapsed (playbackTimer c'') = 0 \<and>
               getElapsed (replayDetectionTimer c'') = 0"
    if h: "previousState c = Some p \<and> \<not> isReplayingSong c \<and>
            (\<forall>i\<in>set inputs. afterSkipInput env p i)" for p inputs
  proof -
    have "skippedQuiet p (timingFields s) ?c'"
      using h by (simp add: skippedQuiet_def sameItem_def timingFields_def)
    then obtain c'' where "run env inputs ?c' = Inr c''"
        "skippedQuiet p (timingFields s) c''"
        "scrobbleRequests (events c'') = scrobbleRequests (events ?c')"
      using run_quiet [of p "timingFields s" ?c' inputs env] h by auto
    then show ?thesis
      by (auto simp: skippedQuiet_def idleTimer_def isExpired_def getElapsed_def
          split: option.splits)
  qed
  then have later: "\<forall>p inputs. previousState c = Some p \<and> \<not> isReplayingSong c \<and>
            (\<forall>i\<in>set inputs. afterSkipInput env p i) \<longrightarrow>
            (\<exists>c'' s''. run env inputs ?c' = Inr c'' \<and> currentSong c'' = Some s'' \<and>
               isSkipped s'' \<and> timingFields s'' = timingFields s \<and>
               scrobbleRequests (events c'') = scrobbleRequests (events ?c') \<and>
               \<not> isExpired (playbackTimer c'') \<and>
               getElapsed (playbackTimer c'') = 0 \<and>
               getElapsed (replayDetectionTimer c'') = 0)"
    by blast
  have now: "mode ?c' = Skipped \<and> currentSong ?c' = Some (s\<lparr>isSkipped := True\<rparr>) \<and>
      getElapsed (playbackTimer ?c') = 0 \<and> getElapsed (replayDetectionTimer ?c') = 0"
    by (simp add: getElapsed_def newTimer_def)
  show "\<exists>c'. skipCurrentSong c = Inr c' \<and> mode c' = Skipped \<and>
         currentSong c' = Some (s\<lparr>isSkipped := True\<rparr>) \<and>
         getElapsed (playbackTimer c') = 0 \<and> getElapsed (replayDetectionTimer c') = 0 \<and>
         (\<forall>p inputs. previousState c = Some p \<and> \<not> isReplayingSong c \<and>
            (\<forall>i\<in>set inputs. afterSkipInput env p i) \<longrightarrow>
            (\<exists>c'' s''. run env inputs c' = Inr c'' \<and> currentSong c'' = Some s'' \<and>
               isSkipped s'' \<and> timingFields s'' = timingFields s \<and>
               scrobbleRequests (events c'') = scrobbleRequests (events c') \<and>
               \<not> isExpired (playbackTimer c'') \<and>
               getElapsed (playbackTimer c'') = 0 \<and>
               getElapsed (replayDetectionTimer c'') = 0))"
    using r now later by (intro exI [of _ ?c']) (intro conjI; blast)
qed

theorem skipCurrentSong_freezes_timing_witness:
  "skipCurrentSong ctl0 = Inl (Error ''No song is now playing'') \<and>
   (\<exists>c'. skipCurrentSong ctlA = Inr c' \<and> mode c' = Skipped \<and>
      currentSong c' = Some (songA\<lparr>isSkipped := True\<rparr>) \<and>
      getElapsed (playbackTimer c') = 0 \<and> getElapsed (replayDetectionTimer c') = 0 \<and>
      (\<exists>c'' s''. run sampleEnv
                [Snapshot (stateA\<lparr>currentTime := JsVal 60\<rparr>), Tick 500, PipelineDone,
                 Snapshot (stateA\<lparr>currentTime := JsVal 61, isPlaying := False\<rparr>)] c' =
              Inr c'' \<and>
         currentSong c'' = Some s'' \<and> isSkipped s'' \<and>
         timingFields s'' = (JsVal 0, JsVal 200, True, JsNull) \<and>
         scrobbleRequests (events c'') = [] \<and>
         \<not> isExpired (playbackTimer c'') \<and> getElapsed (playbackTimer c'') = 0))"
proof -
  let ?inputs = "[Snapshot (stateA\<lparr>currentTime := JsVal 60\<rparr>), Tick 500, PipelineDone,
                 Snapshot (stateA\<lparr>currentTime := JsVal 61, isPlaying := False\<rparr>)]"
  have none: "currentSong ctl0 = None"
    by (simp add: ctl0_def newController_def)
  have a: "currentSong ctlA = Some songA" "previousState ctlA = Some stateA"
    "\<not> isReplayingSong ctlA" "events ctlA = []"
    by (simp_all add: ctlA_def ctl0_def newController_def)
  have tf: "timingFields songA = (JsVal 0, JsVal 200, True, JsNull)"
    by (simp add: timingFields_def songA_def SongImpl_def stateA_def)
  have same: "\<forall>i\<in>set ?inputs. afterSkipInput sampleEnv stateA i"
    by (simp add: sameItem_def sampleEnv_def spec_isStateEmpty_def stateA_def)
  have first: "skipCurrentSong ctl0 = Inl (Error ''No song is now playing'')"
    using skipCurrentSong_freezes_timing [of ctl0 sampleEnv] none by simp
  obtain c' where c': "skipCurrentSong ctlA = Inr c'" "mode c' = Skipped"
      "currentSong c' = Some (songA\<lparr>isSkipped := True\<rparr>)"
      "getElapsed (playbackTimer c') = 0" "getElapsed (replayDetectionTimer c') = 0"
    and later: "\<forall>p inputs. previousState ctlA = Some p \<and> \<not> isReplayingSong ctlA \<and>
            (\<forall>i\<in>set inputs. afterSkipInput sampleEnv p i) \<longrightarrow>
            (\<exists>c'' s''. run sampleEnv inputs c' = Inr c'' \<and> currentSong c'' = Some s'' \<and>
               isSkipped s'' \<and> timingFields s'' = timingFields songA \<and>
               scrobbleRequests (events c'') = scrobbleRequests (events c') \<and>
               \<not> isExpired (playbackTimer c'') \<and>
               getElapsed (playbackTimer c'') = 0 \<and>
               getElapsed (replayDetectionTimer c'') = 0)"
    using skipCurrentSong_freezes_timing [of ctlA sampleEnv] a(1) by blast
  have ev: "scrobbleRequests (events c') = []"
    using c'(1) a(4) by (auto simp add: skip_result [OF a(1)])
  have "\<exists>c'' s''. run sampleEnv ?inputs c' = Inr c'' \<and> currentSong c'' = Some s'' \<and>
               isSkipped s'' \<and> timingFields s'' = timingFields songA \<and>
               scrobbleRequests (events c'') = scrobbleRequests (events c') \<and>
               \<not> isExpired (playbackTimer c'') \<and>
               getElapsed (playbackTimer c'') = 0 \<and>
               getElapsed (replayDetectionTimer c'') = 0"
    using later a(2,3) same by blast
  then show ?thesis
    using first c' ev tf by auto
qed

text \<open>
  The claim as written fails. Song A plays to its end, so the replay timer fires and
  sets the replay flag; the song is then skipped. The next snapshot of song A is taken
  as a new session: the session is no longer skipped, its current time is the
  snapshot's, and the playback timer runs again with its callback armed.
\<close>

theorem skipCurrentSong_replay_counterexample:
  "map_sum id isReplayingSong (run sampleEnv [Tick 160] ctlA) = Inr True \<and>
   map_sum id currentSong
     (run sampleEnv [Tick 160, Skip, Snapshot (stateA\<lparr>currentTime := JsVal 3\<rparr>)] ctlA) =
     Inr (Some ((SongImpl (stateA\<lparr>currentTime := JsVal 3\<rparr>))\<lparr>isReplaying := True\<rparr>)) \<and>
   map_sum id playbackTimer
     (run sampleEnv [Tick 160, Skip, Snapshot (stateA\<lparr>currentTime := JsVal 3\<rparr>)] ctlA) =
     Inr \<lparr> tstate = Running, elapsed = 0, target = None, armed = True \<rparr>"
  by (simp add: run_defs ctlA_def songA_def)

section \<open>Completions that arrive late\<close>

text \<open>A playing snapshot of a changed or replayed item starts a fresh session.\<close>

lemma replacement_result:
  assumes "isEnabled c" "\<not> util_isStateEmpty env st"
    "isSongChanged st c \<or> isReplayingSong c" "isPlaying st"
  shows "\<exists>c1. onStateChanged env st c = Inr c1 \<and>
     currentSong c1 =
       Some ((SongImpl st)\<lparr>isReplaying := isReplayingSong c,
               isSkipped := (\<not> shouldScrobblePodcasts c \<and> isPodcast st)\<rparr>)"
proof -
  let ?c1 = "c\<lparr>previousState := Some st\<rparr>"
  let ?c2 = "if isNeedToAddSongToScrobbleStorage env ?c1
             then addSongToScrobbleStorage None ?c1 else ?c1"
  obtain c3 where c3: "processNewState st ?c2 = Inr c3"
    "currentSong c3 =
       Some ((SongImpl st)\<lparr>isReplaying := isReplayingSong ?c2,
               isSkipped := (\<not> shouldScrobblePodcasts ?c2 \<and> isPodcast st)\<rparr>)"
    using processNewState_result [of st ?c2] by blast
  have "onStateChanged env st c = Inr (processSong_begin c3)"
    using assms c3(1) by (simp add: onStateChanged_def Let_def)
  then show ?thesis
    using c3(2) by (simp add: processSong_begin_def)
qed

text \<open>
  Claim C9, as the code has it. Neither \<^verbatim>\<open>processSong\<close> nor \<^verbatim>\<open>scrobbleSong\<close> keeps
  the session it was started for: after the \<^verbatim>\<open>await\<close> each reads the current song of
  the controller again. So when a playing snapshot of a changed or replayed item has
  replaced the session, a completion that arrives afterwards acts on the new session:
  scrobble results with an Ok flag the new session as scrobbled and set the mode to
  Scrobbled, and a pipeline completion runs the steps after the pipeline on the new
  session, which is not valid yet, so the mode becomes Unknown and the now-playing and
  song listeners are notified. A reset of the session and a disabling of the
  controller reset both timers, so that no time passing changes the controller
  afterwards: no timer callback runs. And a scrobble completion that returns on a
  controller without a session leaves it without a session and its timers untouched.
\<close>

theorem late_completion_acts_on_current_session:
  "(isEnabled c \<and> \<not> util_isStateEmpty env st \<and>
    (isSongChanged st c \<or> isReplayingSong c) \<and> isPlaying st \<longrightarrow>
      (\<exists>c1 s1. onStateChanged env st c = Inr c1 \<and> currentSong c1 = Some s1 \<and>
         s1 = (SongImpl st)\<lparr>isReplaying := isReplayingSong c,
                isSkipped := (\<not> shouldScrobblePodcasts c \<and> isPodcast st)\<rparr> \<and>
         ((\<exists>r\<in>set results. resultType r = RESULT_OK) \<longrightarrow>
            (\<exists>c'. scrobbleSong_resume results c1 = Inr c' \<and>
               currentSong c' = Some (s1\<lparr>isScrobbled := True\<rparr>) \<and> mode c' = Scrobbled)) \<and>
         (\<exists>c'. processSong_resume env c1 = Inr c' \<and> mode c' = Unknown \<and>
            events c' = events c1 @ [OnModeChanged Unknown, OnNowPlaying, OnSongUpdated]))) \<and>
   advance dt (reset c) = reset c \<and>
   advance dt (setEnabled False c) = setEnabled False c \<and>
   (currentSong c = None \<longrightarrow>
      (\<forall>c'. scrobbleSong_resume results c = Inr c' \<longrightarrow>
         currentSong c' = None \<and> playbackTimer c' = playbackTimer c \<and>
         replayDetectionTimer c' = replayDetectionTimer c))"
proof (intro conjI impI)
  assume h: "isEnabled c \<and> \<not> util_isStateEmpty env st \<and>
    (isSongChanged st c \<or> isReplayingSong c) \<and> isPlaying st"
  let ?s1 = "(SongImpl st)\<lparr>isReplaying := isReplayingSong c,
                isSkipped := (\<not> shouldScrobblePodcasts c \<and> isPodcast st)\<rparr>"
  obtain c1 where c1: "onStateChanged env st c = Inr c1" "currentSong c1 = Some ?s1"
    using replacement_result [of c env st] h by blast
  have inv: "\<not> isValid ?s1"
    by (simp add: isValid_def SongImpl_def)
  have scrobble: "(\<exists>r\<in>set results. resultType r = RESULT_OK) \<longrightarrow>
      (\<exists>c'. scrobbleSong_resume results c1 = Inr c' \<and>
         currentSong c' = Some (?s1\<lparr>isScrobbled := True\<rparr>) \<and> mode c' = Scrobbled)"
    using c1(2)
    by (simp add: scrobbleSong_resume_def Let_def some_ok_iff_fewer_failed is_result_def)
  have pipeline: "\<exists>c'. processSong_resume env c1 = Inr c' \<and> mode c' = Unknown \<and>
      events c' = events c1 @ [OnModeChanged Unknown, OnNowPlaying, OnSongUpdated]"
    by (simp add: processSong_invalid [OF c1(2) inv])
  show "\<exists>c1 s1. onStateChanged env st c = Inr c1 \<and> currentSong c1 = Some s1 \<and>
         s1 = (SongImpl st)\<lparr>isReplaying := isReplayingSong c,
                isSkipped := (\<not> shouldScrobblePodcasts c \<and> isPodcast st)\<rparr> \<and>
         ((\<exists>r\<in>set results. resultType r = RESULT_OK) \<longrightarrow>
            (\<exists>c'. scrobbleSong_resume results c1 = Inr c' \<and>
               currentSong c' = Some (s1\<lparr>isScrobbled := True\<rparr>) \<and> mode c' = Scrobbled)) \<and>
         (\<exists>c'. processSong_resume env c1 = Inr c' \<and> mode c' = Unknown \<and>
            events c' = events c1 @ [OnModeChanged Unknown, OnNowPlaying, OnSongUpdated])"
    using c1 scrobble pipeline by blast
next
  show "advance dt (reset c) = reset c"
    by (rule advance_idle) (simp_all add: reset_def resetState_def timer_reset_def)
next
  show "advance dt (setEnabled False c) = setEnabled False c"
    by (rule advance_idle) (simp_all add: setEnabled_def resetState_def timer_reset_def)
next
  assume "currentSong c = None"
  then show "\<forall>c'. scrobbleSong_resume results c = Inr c' \<longrightarrow>
         currentSong c' = None \<and> playbackTimer c' = playbackTimer c \<and>
         replayDetectionTimer c' = replayDetectionTimer c"
    by (auto simp add: scrobbleSong_resume_def Let_def split: if_splits)
qed

theorem late_completion_acts_on_current_session_witness:
  "(\<exists>c1. onStateChanged sampleEnv stateB ctlA = Inr c1 \<and>
      currentSong c1 = Some (SongImpl stateB) \<and>
      (\<exists>c'. scrobbleSong_resume [okResult ''lastfm''] c1 = Inr c' \<and>
         currentSong c' = Some ((SongImpl stateB)\<lparr>isScrobbled := True\<rparr>) \<and>
         mode c' = Scrobbled) \<and>
      (\<exists>c'. processSong_resume sampleEnv c1 = Inr c' \<and> mode c' = Unknown)) \<and>
   advance 500 (reset ctlA) = reset ctlA \<and>
   map_sum id currentSong (scrobbleSong_resume [ignoreResult ''lastfm''] ctl0) = Inr None"
proof -
  have h: "isEnabled ctlA" "\<not> util_isStateEmpty sampleEnv stateB"
    "isSongChanged stateB ctlA" "isPlaying stateB" "\<not> isReplayingSong ctlA"
    "shouldScrobblePodcasts ctlA"
    by (simp_all add: ctlA_def ctl0_def newController_def sampleEnv_def
        spec_isStateEmpty_def stateB_def stateA_def isSongChanged_def
        fieldsToCheckSongChange_def)
  have ok: "\<exists>r\<in>set [okResult ''lastfm'']. resultType r = RESULT_OK"
    by (simp add: okResult_def)
  have s1: "(SongImpl stateB)\<lparr>isReplaying := False, isSkipped := False\<rparr> = SongImpl stateB"
    by (simp add: SongImpl_def)
  have none: "currentSong ctl0 = None"
    by (simp add: ctl0_def newController_def)
  note inst = late_completion_acts_on_current_session
      [of ctlA sampleEnv stateB "[okResult ''lastfm'']" 500]
  have first: "\<exists>c1. onStateChanged sampleEnv stateB ctlA = Inr c1 \<and>
      currentSong c1 = Some (SongImpl stateB) \<and>
      (\<exists>c'. scrobbleSong_resume [okResult ''lastfm''] c1 = Inr c' \<and>
         currentSong c' = Some ((SongImpl stateB)\<lparr>isScrobbled := True\<rparr>) \<and>
         mode c' = Scrobbled) \<and>
      (\<exists>c'. processSong_resume sampleEnv c1 = Inr c' \<and> mode c' = Unknown)"
    using inst h ok by (auto simp add: s1)
  have second: "advance 500 (reset ctlA) = reset ctlA"
    using inst by blast
  obtain c' where c': "scrobbleSong_resume [ignoreResult ''lastfm''] ctl0 = Inr c'"
    by (simp add: scrobbleSong_resume_def Let_def ignoreResult_def is_result_def
        areAllResults_def)
  have "currentSong c' = None"
    using late_completion_acts_on_current_session
      [of ctl0 sampleEnv stateB "[ignoreResult ''lastfm'']" 500] none c'
    by blast
  then have third:
    "map_sum id currentSong (scrobbleSong_resume [ignoreResult ''lastfm''] ctl0) = Inr None"
    using c' by simp
  show ?thesis
    using first second third by blast
qed

text \<open>
  The claim as written fails. The playback timer of song A fires and the scrobble
  request for A is sent; song B replaces A before the results arrive; the Ok result
  for A then flags song B as scrobbled. Likewise, when B replaces A while the pipeline
  works on A, the completion for A runs the steps after the pipeline on B.
\<close>

theorem late_completion_counterexample:
  "map_sum id events
     (run sampleEnv [Tick 60, Snapshot stateB] ctlA) =
     Inr [SendScrobbleRequest (Some songA), OnReset, OnModeChanged Loading,
          PipelineProcess (Some (SongImpl stateB))] \<and>
   map_sum id currentSong
     (run sampleEnv [Tick 60, Snapshot stateB, ScrobbleDone [okResult ''lastfm'']] ctlA) =
     Inr (Some ((SongImpl stateB)\<lparr>isScrobbled := True\<rparr>)) \<and>
   map_sum id mode
     (run sampleEnv [Snapshot stateA, Snapshot stateB] ctl0) = Inr Loading \<and>
   map_sum id mode
     (run sampleEnv [Snapshot stateA, Snapshot stateB, PipelineDone] ctl0) = Inr Unknown"
  by (simp add: run_defs ctlA_def songA_def okResult_def)

end
